theory Spec2Isabelle
  imports Main "HOL-Library.Multiset"
begin

section \<open>The in-memory store of RentalTrust (MemStorage)\<close>

text \<open>
  A shallow embedding of the class \<open>MemStorage\<close> and of the types of
  \<open>shared/schema.ts\<close> it stores. Every method takes the store and returns its result
  together with the store it leaves behind; the methods are \<open>async\<close> but never suspend
  between their reads and writes, so each one is a single step.
\<close>

subsection \<open>JavaScript values used by the store\<close>

text \<open>
  A \<open>Date\<close>, by the three observations the store makes of it: the time value in
  milliseconds (what \<open>getTime\<close> returns and what the comparisons of two dates compare), and the local
  calendar year and month index (0 for January).
\<close>

record jsdate =
  getTime :: int
  getFullYear :: int
  getMonth :: int

text \<open>
  \<open>new Date(year, monthIndex, 1)\<close>, by the year and month the new date reports: a year
  argument from 0 to 99 means 1900 + year, and a month index outside 0..11 carries
  into the year.
\<close>

definition Date_year_month :: "int \<Rightarrow> int \<Rightarrow> int \<times> int" where
  "Date_year_month y m =
     (let yr = (if 0 \<le> y \<and> y \<le> 99 then 1900 + y else y)
      in (yr + m div 12, m mod 12))"

text \<open>\<open>Number.prototype.toString\<close> on an integer: its decimal digits.\<close>

fun digits :: "nat \<Rightarrow> string" where
  "digits n =
     (if n < 10 then [''0123456789'' ! n]
      else digits (n div 10) @ [''0123456789'' ! (n mod 10)])"

declare digits.simps [simp del]

definition toString :: "int \<Rightarrow> string" where
  "toString i = (if i < 0 then CHR ''-'' # digits (nat (- i)) else digits (nat i))"

text \<open>
  A \<open>Map\<close> from numbers to values keeps its entries in insertion order: \<open>set\<close> on a key that is
  present replaces the value where it stands, \<open>set\<close> on a new key appends,
  \<open>delete\<close> reports whether the key was present, and \<open>values()\<close> walks the entries
  in order.
\<close>

type_synonym 'v jsmap = "(nat \<times> 'v) list"

definition Map_get :: "'v jsmap \<Rightarrow> nat \<Rightarrow> 'v option" where
  "Map_get m k = map_of m k"

primrec Map_set :: "nat \<Rightarrow> 'v \<Rightarrow> 'v jsmap \<Rightarrow> 'v jsmap" where
  "Map_set k v [] = [(k, v)]"
| "Map_set k v (p # ps) = (if fst p = k then (k, v) # ps else p # Map_set k v ps)"

definition Map_has :: "'v jsmap \<Rightarrow> nat \<Rightarrow> bool" where
  "Map_has m k = (k \<in> set (map fst m))"

definition Map_delete :: "nat \<Rightarrow> 'v jsmap \<Rightarrow> 'v jsmap" where
  "Map_delete k m = filter (\<lambda>p. fst p \<noteq> k) m"

definition Map_values :: "'v jsmap \<Rightarrow> 'v list" where
  "Map_values m = map snd m"

text \<open>
  Truthiness of a boolean field that may be missing: the insert schemas make every
  column with a default optional, and the store fills in no default.
\<close>

definition truthy :: "bool option \<Rightarrow> bool" where
  "truthy b = (b = Some True)"

subsection \<open>The schema\<close>

text \<open>
  Each \<open>InsertX\<close> type is a record; the stored type \<open>X\<close> extends it by \<open>id\<close> and
  \<open>createdAt\<close>, as \<open>{ ...insertX, id, createdAt: now }\<close> does. A nullable or
  defaulted column is an option (\<open>None\<close>: null or missing). Numeric columns are
  strings, as drizzle types them. The stored type \<open>Unit\<close> is called \<open>unitRow\<close>.
\<close>

record insertUser =
  usr_username :: string
  usr_password :: string
  usr_firstName :: string
  usr_lastName :: string
  usr_email :: string
  usr_phone :: "string option"
  usr_userType :: string

record user = insertUser +
  usr_id :: nat
  usr_createdAt :: jsdate

record insertProperty =
  prop_landlordId :: nat
  prop_name :: string
  prop_address :: string
  prop_city :: string
  prop_state :: string
  prop_zip :: string
  prop_totalUnits :: int
  prop_isActive :: "bool option"

record property = insertProperty +
  prop_id :: nat
  prop_createdAt :: jsdate

record insertUnit =
  unit_propertyId :: nat
  unit_unitNumber :: string
  unit_monthlyRent :: string
  unit_bedrooms :: int
  unit_bathrooms :: string
  unit_sqft :: "int option"
  unit_description :: "string option"
  unit_isOccupied :: "bool option"

record unitRow = insertUnit +
  unit_id :: nat
  unit_createdAt :: jsdate

record insertTenant =
  ten_userId :: nat
  ten_unitId :: nat
  ten_leaseStartDate :: jsdate
  ten_leaseEndDate :: jsdate
  ten_rentDueDay :: int
  ten_isActive :: "bool option"

record tenant = insertTenant +
  ten_id :: nat
  ten_createdAt :: jsdate

record insertPayment =
  pay_tenantId :: nat
  pay_amount :: string
  pay_dueDate :: jsdate
  pay_paymentDate :: "jsdate option"
  pay_status :: string
  pay_paymentMethod :: "string option"
  pay_notes :: "string option"

record payment = insertPayment +
  pay_id :: nat
  pay_createdAt :: jsdate

record insertNotification =
  ntf_userId :: nat
  ntf_message :: string
  ntf_type :: string
  ntf_isRead :: "bool option"

record notification = insertNotification +
  ntf_id :: nat
  ntf_createdAt :: jsdate

text \<open>
  A \<open>Partial\<close> of an insert type: every field may be missing (\<open>None\<close>). The spread
  \<open>{ ...x, ...data }\<close> replaces exactly the fields that \<open>data\<close> has.
\<close>

definition spread :: "'a \<Rightarrow> 'a option \<Rightarrow> 'a" where
  "spread old new = (case new of None \<Rightarrow> old | Some v \<Rightarrow> v)"

record partialProperty =
  pprop_landlordId :: "nat option"
  pprop_name :: "string option"
  pprop_address :: "string option"
  pprop_city :: "string option"
  pprop_state :: "string option"
  pprop_zip :: "string option"
  pprop_totalUnits :: "int option"
  pprop_isActive :: "bool option option"

record partialUnit =
  punit_propertyId :: "nat option"
  punit_unitNumber :: "string option"
  punit_monthlyRent :: "string option"
  punit_bedrooms :: "int option"
  punit_bathrooms :: "string option"
  punit_sqft :: "int option option"
  punit_description :: "string option option"
  punit_isOccupied :: "bool option option"

record partialTenant =
  pten_userId :: "nat option"
  pten_unitId :: "nat option"
  pten_leaseStartDate :: "jsdate option"
  pten_leaseEndDate :: "jsdate option"
  pten_rentDueDay :: "int option"
  pten_isActive :: "bool option option"

record partialPayment =
  ppay_tenantId :: "nat option"
  ppay_amount :: "string option"
  ppay_dueDate :: "jsdate option"
  ppay_paymentDate :: "jsdate option option"
  ppay_status :: "string option"
  ppay_paymentMethod :: "string option option"
  ppay_notes :: "string option option"

record partialNotification =
  pntf_userId :: "nat option"
  pntf_message :: "string option"
  pntf_type :: "string option"
  pntf_isRead :: "bool option option"

definition spreadProperty :: "property \<Rightarrow> partialProperty \<Rightarrow> property" where
  "spreadProperty p d = p
     \<lparr> prop_landlordId := spread (prop_landlordId p) (pprop_landlordId d),
       prop_name := spread (prop_name p) (pprop_name d),
       prop_address := spread (prop_address p) (pprop_address d),
       prop_city := spread (prop_city p) (pprop_city d),
       prop_state := spread (prop_state p) (pprop_state d),
       prop_zip := spread (prop_zip p) (pprop_zip d),
       prop_totalUnits := spread (prop_totalUnits p) (pprop_totalUnits d),
       prop_isActive := spread (prop_isActive p) (pprop_isActive d) \<rparr>"

definition spreadUnit :: "unitRow \<Rightarrow> partialUnit \<Rightarrow> unitRow" where
  "spreadUnit u d = u
     \<lparr> unit_propertyId := spread (unit_propertyId u) (punit_propertyId d),
       unit_unitNumber := spread (unit_unitNumber u) (punit_unitNumber d),
       unit_monthlyRent := spread (unit_monthlyRent u) (punit_monthlyRent d),
       unit_bedrooms := spread (unit_bedrooms u) (punit_bedrooms d),
       unit_bathrooms := spread (unit_bathrooms u) (punit_bathrooms d),
       unit_sqft := spread (unit_sqft u) (punit_sqft d),
       unit_description := spread (unit_description u) (punit_description d),
       unit_isOccupied := spread (unit_isOccupied u) (punit_isOccupied d) \<rparr>"

definition spreadTenant :: "tenant \<Rightarrow> partialTenant \<Rightarrow> tenant" where
  "spreadTenant t d = t
     \<lparr> ten_userId := spread (ten_userId t) (pten_userId d),
       ten_unitId := spread (ten_unitId t) (pten_unitId d),
       ten_leaseStartDate := spread (ten_leaseStartDate t) (pten_leaseStartDate d),
       ten_leaseEndDate := spread (ten_leaseEndDate t) (pten_leaseEndDate d),
       ten_rentDueDay := spread (ten_rentDueDay t) (pten_rentDueDay d),
       ten_isActive := spread (ten_isActive t) (pten_isActive d) \<rparr>"

definition spreadPayment :: "payment \<Rightarrow> partialPayment \<Rightarrow> payment" where
  "spreadPayment p d = p
     \<lparr> pay_tenantId := spread (pay_tenantId p) (ppay_tenantId d),
       pay_amount := spread (pay_amount p) (ppay_amount d),
       pay_dueDate := spread (pay_dueDate p) (ppay_dueDate d),
       pay_paymentDate := spread (pay_paymentDate p) (ppay_paymentDate d),
       pay_status := spread (pay_status p) (ppay_status d),
       pay_paymentMethod := spread (pay_paymentMethod p) (ppay_paymentMethod d),
       pay_notes := spread (pay_notes p) (ppay_notes d) \<rparr>"

definition spreadNotification :: "notification \<Rightarrow> partialNotification \<Rightarrow> notification" where
  "spreadNotification n d = n
     \<lparr> ntf_userId := spread (ntf_userId n) (pntf_userId d),
       ntf_message := spread (ntf_message n) (pntf_message d),
       ntf_type := spread (ntf_type n) (pntf_type d),
       ntf_isRead := spread (ntf_isRead n) (pntf_isRead d) \<rparr>"

text \<open>The literal \<open>{ isOccupied: b }\<close> passed to \<open>updateUnit\<close> by the tenant operations.\<close>

definition isOccupied_only :: "bool \<Rightarrow> partialUnit" where
  "isOccupied_only b =
     \<lparr> punit_propertyId = None, punit_unitNumber = None, punit_monthlyRent = None,
       punit_bedrooms = None, punit_bathrooms = None, punit_sqft = None,
       punit_description = None, punit_isOccupied = Some (Some b) \<rparr>"

subsection \<open>The store\<close>

record idCounters =
  cur_user :: nat
  cur_property :: nat
  cur_unit :: nat
  cur_tenant :: nat
  cur_payment :: nat
  cur_notification :: nat

text \<open>
  The fields of \<open>MemStorage\<close>. The session store belongs to the HTTP layer and no
  method below reads it. Ids are JavaScript numbers counted up from 1; they are
  natural numbers here, exact as long as fewer than \<open>2^53\<close> ids have been issued.
\<close>

record storage =
  userMap :: "user jsmap"
  propertyMap :: "property jsmap"
  unitMap :: "unitRow jsmap"
  tenantMap :: "tenant jsmap"
  paymentMap :: "payment jsmap"
  notificationMap :: "notification jsmap"
  currentId :: idCounters

definition MemStorage :: storage where
  "MemStorage =
     \<lparr> userMap = [], propertyMap = [], unitMap = [], tenantMap = [], paymentMap = [],
       notificationMap = [],
       currentId = \<lparr> cur_user = 1, cur_property = 1, cur_unit = 1, cur_tenant = 1,
                     cur_payment = 1, cur_notification = 1 \<rparr> \<rparr>"

subsection \<open>Users\<close>

definition getUser :: "storage \<Rightarrow> nat \<Rightarrow> user option" where
  "getUser s i = Map_get (userMap s) i"

definition getUserByUsername :: "storage \<Rightarrow> string \<Rightarrow> user option" where
  "getUserByUsername s username =
     find (\<lambda>user. usr_username user = username) (Map_values (userMap s))"

definition createUser :: "insertUser \<Rightarrow> jsdate \<Rightarrow> storage \<Rightarrow> user \<times> storage" where
  "createUser insertUser now s =
     (let i = cur_user (currentId s);
          s1 = s\<lparr>currentId := (currentId s)\<lparr>cur_user := i + 1\<rparr>\<rparr>;
          user = insertUser.extend insertUser (user.fields i now)
      in (user, s1\<lparr>userMap := Map_set i user (userMap s1)\<rparr>))"

subsection \<open>Properties\<close>

definition getProperty :: "storage \<Rightarrow> nat \<Rightarrow> property option" where
  "getProperty s i = Map_get (propertyMap s) i"

definition getPropertiesByLandlord :: "storage \<Rightarrow> nat \<Rightarrow> property list" where
  "getPropertiesByLandlord s landlordId =
     filter (\<lambda>property. prop_landlordId property = landlordId) (Map_values (propertyMap s))"

definition createProperty :: "insertProperty \<Rightarrow> jsdate \<Rightarrow> storage \<Rightarrow> property \<times> storage" where
  "createProperty insertProperty now s =
     (let i = cur_property (currentId s);
          s1 = s\<lparr>currentId := (currentId s)\<lparr>cur_property := i + 1\<rparr>\<rparr>;
          property = insertProperty.extend insertProperty (property.fields i now)
      in (property, s1\<lparr>propertyMap := Map_set i property (propertyMap s1)\<rparr>))"

definition updateProperty ::
  "nat \<Rightarrow> partialProperty \<Rightarrow> storage \<Rightarrow> property option \<times> storage" where
  "updateProperty i propertyData s =
     (case Map_get (propertyMap s) i of
        None \<Rightarrow> (None, s)
      | Some property \<Rightarrow>
          (let updatedProperty = spreadProperty property propertyData
           in (Some updatedProperty,
               s\<lparr>propertyMap := Map_set i updatedProperty (propertyMap s)\<rparr>)))"

definition deleteProperty :: "nat \<Rightarrow> storage \<Rightarrow> bool \<times> storage" where
  "deleteProperty i s =
     (Map_has (propertyMap s) i, s\<lparr>propertyMap := Map_delete i (propertyMap s)\<rparr>)"

subsection \<open>Units\<close>

definition getUnit :: "storage \<Rightarrow> nat \<Rightarrow> unitRow option" where
  "getUnit s i = Map_get (unitMap s) i"

definition getUnitsByProperty :: "storage \<Rightarrow> nat \<Rightarrow> unitRow list" where
  "getUnitsByProperty s propertyId =
     filter (\<lambda>unit. unit_propertyId unit = propertyId) (Map_values (unitMap s))"

definition createUnit :: "insertUnit \<Rightarrow> jsdate \<Rightarrow> storage \<Rightarrow> unitRow \<times> storage" where
  "createUnit insertUnit now s =
     (let i = cur_unit (currentId s);
          s1 = s\<lparr>currentId := (currentId s)\<lparr>cur_unit := i + 1\<rparr>\<rparr>;
          unit = insertUnit.extend insertUnit (unitRow.fields i now)
      in (unit, s1\<lparr>unitMap := Map_set i unit (unitMap s1)\<rparr>))"

definition updateUnit :: "nat \<Rightarrow> partialUnit \<Rightarrow> storage \<Rightarrow> unitRow option \<times> storage" where
  "updateUnit i unitData s =
     (case Map_get (unitMap s) i of
        None \<Rightarrow> (None, s)
      | Some unit \<Rightarrow>
          (let updatedUnit = spreadUnit unit unitData
           in (Some updatedUnit, s\<lparr>unitMap := Map_set i updatedUnit (unitMap s)\<rparr>)))"

definition deleteUnit :: "nat \<Rightarrow> storage \<Rightarrow> bool \<times> storage" where
  "deleteUnit i s = (Map_has (unitMap s) i, s\<lparr>unitMap := Map_delete i (unitMap s)\<rparr>)"

subsection \<open>Tenants and the occupancy flag\<close>

definition getTenant :: "storage \<Rightarrow> nat \<Rightarrow> tenant option" where
  "getTenant s i = Map_get (tenantMap s) i"

definition getTenantByUserId :: "storage \<Rightarrow> nat \<Rightarrow> tenant option" where
  "getTenantByUserId s userId =
     find (\<lambda>tenant. ten_userId tenant = userId) (Map_values (tenantMap s))"

definition createTenant :: "insertTenant \<Rightarrow> jsdate \<Rightarrow> storage \<Rightarrow> tenant \<times> storage" where
  "createTenant insertTenant now s =
     (let i = cur_tenant (currentId s);
          s1 = s\<lparr>currentId := (currentId s)\<lparr>cur_tenant := i + 1\<rparr>\<rparr>;
          tenant = insertTenant.extend insertTenant (tenant.fields i now);
          s2 = s1\<lparr>tenantMap := Map_set i tenant (tenantMap s1)\<rparr>
      in (case getUnit s2 (ten_unitId tenant) of
            None \<Rightarrow> (tenant, s2)
          | Some unit \<Rightarrow> (tenant, snd (updateUnit (unit_id unit) (isOccupied_only True) s2))))"

text \<open>
  The filter both \<open>updateTenant\<close> and \<open>deleteTenant\<close> run over the tenant map:
  the active tenants of the unit other than tenant \<open>i\<close>.
\<close>

definition otherTenants :: "storage \<Rightarrow> nat \<Rightarrow> unitRow \<Rightarrow> tenant list" where
  "otherTenants s i unit =
     filter (\<lambda>t. ten_id t \<noteq> i \<and> ten_unitId t = unit_id unit \<and> truthy (ten_isActive t))
       (Map_values (tenantMap s))"

definition updateTenant :: "nat \<Rightarrow> partialTenant \<Rightarrow> storage \<Rightarrow> tenant option \<times> storage" where
  "updateTenant i tenantData s =
     (case Map_get (tenantMap s) i of
        None \<Rightarrow> (None, s)
      | Some tenant \<Rightarrow>
          (let s3 =
                 (case pten_unitId tenantData of
                    None \<Rightarrow> s
                  | Some newUnitId \<Rightarrow>
                      if newUnitId \<noteq> 0 \<and> newUnitId \<noteq> ten_unitId tenant then
                        (let oldUnit = getUnit s (ten_unitId tenant);
                             newUnit = getUnit s newUnitId;
                             s1 = (case oldUnit of
                                     None \<Rightarrow> s
                                   | Some ou \<Rightarrow>
                                       if length (otherTenants s i ou) = 0
                                       then snd (updateUnit (unit_id ou) (isOccupied_only False) s)
                                       else s)
                         in (case newUnit of
                               None \<Rightarrow> s1
                             | Some nu \<Rightarrow> snd (updateUnit (unit_id nu) (isOccupied_only True) s1)))
                      else s);
               updatedTenant = spreadTenant tenant tenantData
           in (Some updatedTenant, s3\<lparr>tenantMap := Map_set i updatedTenant (tenantMap s3)\<rparr>)))"

definition deleteTenant :: "nat \<Rightarrow> storage \<Rightarrow> bool \<times> storage" where
  "deleteTenant i s =
     (let s1 =
            (case Map_get (tenantMap s) i of
               None \<Rightarrow> s
             | Some tenant \<Rightarrow>
                 (case getUnit s (ten_unitId tenant) of
                    None \<Rightarrow> s
                  | Some unit \<Rightarrow>
                      if length (otherTenants s i unit) = 0
                      then snd (updateUnit (unit_id unit) (isOccupied_only False) s)
                      else s))
      in (Map_has (tenantMap s1) i, s1\<lparr>tenantMap := Map_delete i (tenantMap s1)\<rparr>))"

subsection \<open>Payments and notifications\<close>

definition getPayment :: "storage \<Rightarrow> nat \<Rightarrow> payment option" where
  "getPayment s i = Map_get (paymentMap s) i"

definition getPaymentsByTenant :: "storage \<Rightarrow> nat \<Rightarrow> payment list" where
  "getPaymentsByTenant s tenantId =
     filter (\<lambda>payment. pay_tenantId payment = tenantId) (Map_values (paymentMap s))"

definition createPayment :: "insertPayment \<Rightarrow> jsdate \<Rightarrow> storage \<Rightarrow> payment \<times> storage" where
  "createPayment insertPayment now s =
     (let i = cur_payment (currentId s);
          s1 = s\<lparr>currentId := (currentId s)\<lparr>cur_payment := i + 1\<rparr>\<rparr>;
          payment = insertPayment.extend insertPayment (payment.fields i now)
      in (payment, s1\<lparr>paymentMap := Map_set i payment (paymentMap s1)\<rparr>))"

definition updatePayment :: "nat \<Rightarrow> partialPayment \<Rightarrow> storage \<Rightarrow> payment option \<times> storage" where
  "updatePayment i paymentData s =
     (case Map_get (paymentMap s) i of
        None \<Rightarrow> (None, s)
      | Some payment \<Rightarrow>
          (let updatedPayment = spreadPayment payment paymentData
           in (Some updatedPayment,
               s\<lparr>paymentMap := Map_set i updatedPayment (paymentMap s)\<rparr>)))"

definition deletePayment :: "nat \<Rightarrow> storage \<Rightarrow> bool \<times> storage" where
  "deletePayment i s =
     (Map_has (paymentMap s) i, s\<lparr>paymentMap := Map_delete i (paymentMap s)\<rparr>)"

definition getNotification :: "storage \<Rightarrow> nat \<Rightarrow> notification option" where
  "getNotification s i = Map_get (notificationMap s) i"

definition createNotification ::
  "insertNotification \<Rightarrow> jsdate \<Rightarrow> storage \<Rightarrow> notification \<times> storage" where
  "createNotification insertNotification now s =
     (let i = cur_notification (currentId s);
          s1 = s\<lparr>currentId := (currentId s)\<lparr>cur_notification := i + 1\<rparr>\<rparr>;
          notification = insertNotification.extend insertNotification (notification.fields i now)
      in (notification, s1\<lparr>notificationMap := Map_set i notification (notificationMap s1)\<rparr>))"

definition updateNotification ::
  "nat \<Rightarrow> partialNotification \<Rightarrow> storage \<Rightarrow> notification option \<times> storage" where
  "updateNotification i notificationData s =
     (case Map_get (notificationMap s) i of
        None \<Rightarrow> (None, s)
      | Some notification \<Rightarrow>
          (let updatedNotification = spreadNotification notification notificationData
           in (Some updatedNotification,
               s\<lparr>notificationMap := Map_set i updatedNotification (notificationMap s)\<rparr>)))"

definition deleteNotification :: "nat \<Rightarrow> storage \<Rightarrow> bool \<times> storage" where
  "deleteNotification i s =
     (Map_has (notificationMap s) i, s\<lparr>notificationMap := Map_delete i (notificationMap s)\<rparr>)"

definition markNotificationAsRead :: "nat \<Rightarrow> storage \<Rightarrow> notification option \<times> storage" where
  "markNotificationAsRead i s =
     (case Map_get (notificationMap s) i of
        None \<Rightarrow> (None, s)
      | Some notification \<Rightarrow>
          (let updatedNotification = notification\<lparr>ntf_isRead := Some True\<rparr>
           in (Some updatedNotification,
               s\<lparr>notificationMap := Map_set i updatedNotification (notificationMap s)\<rparr>)))"

subsection \<open>Landlord-scoped queries\<close>

text \<open>
  The joined views: \<open>{ ...tenant, user, unit: { ...unit, property } }\<close> and
  \<open>{ ...payment, tenant }\<close>. A lookup marked \<open>!\<close> in the source that finds nothing
  leaves \<open>undefined\<close> in the view (\<open>None\<close>); reading \<open>unit.propertyId\<close> of a unit
  that was not found throws a \<open>TypeError\<close>.
\<close>

datatype error = TypeError

record unitWithProperty = unitRow +
  uwp_property :: "property option"

record tenantWithRefs = tenant +
  twr_user :: "user option"
  twr_unit :: unitWithProperty

record paymentWithTenant = payment +
  pwt_tenant :: "tenantWithRefs option"

record propertyWithUnits = property +
  pwu_units :: "unitRow list"

definition enrichTenant :: "storage \<Rightarrow> tenant \<Rightarrow> error + tenantWithRefs" where
  "enrichTenant s tenant =
     (let user = Map_get (userMap s) (ten_userId tenant)
      in (case Map_get (unitMap s) (ten_unitId tenant) of
            None \<Rightarrow> Inl TypeError
          | Some unit \<Rightarrow>
              (let property = Map_get (propertyMap s) (unit_propertyId unit)
               in Inr (tenant.extend tenant
                         (tenantWithRefs.fields user
                            (unitRow.extend unit (unitWithProperty.fields property)))))))"

text \<open>\<open>Array.prototype.map\<close> with a callback that may throw: the first throw ends it.\<close>

fun mapThrowing :: "('a \<Rightarrow> error + 'b) \<Rightarrow> 'a list \<Rightarrow> error + 'b list" where
  "mapThrowing f [] = Inr []"
| "mapThrowing f (x # xs) =
     (case f x of
        Inl e \<Rightarrow> Inl e
      | Inr y \<Rightarrow> (case mapThrowing f xs of Inl e \<Rightarrow> Inl e | Inr ys \<Rightarrow> Inr (y # ys)))"

definition landlordTenants :: "storage \<Rightarrow> nat \<Rightarrow> tenant list" where
  "landlordTenants s landlordId =
     (let properties = getPropertiesByLandlord s landlordId;
          propertyIds = map prop_id properties;
          units = filter (\<lambda>unit. unit_propertyId unit \<in> set propertyIds) (Map_values (unitMap s));
          unitIds = map unit_id units
      in filter (\<lambda>tenant. ten_unitId tenant \<in> set unitIds) (Map_values (tenantMap s)))"

definition getTenantsByLandlord :: "storage \<Rightarrow> nat \<Rightarrow> error + tenantWithRefs list" where
  "getTenantsByLandlord s landlordId = mapThrowing (enrichTenant s) (landlordTenants s landlordId)"

definition getPaymentsByLandlord :: "storage \<Rightarrow> nat \<Rightarrow> error + paymentWithTenant list" where
  "getPaymentsByLandlord s landlordId =
     (case getTenantsByLandlord s landlordId of
        Inl e \<Rightarrow> Inl e
      | Inr tenants \<Rightarrow>
          (let tenantIds = map ten_id tenants;
               payments = filter (\<lambda>payment. pay_tenantId payment \<in> set tenantIds)
                            (Map_values (paymentMap s))
           in Inr (map (\<lambda>payment.
                          payment.extend payment
                            (paymentWithTenant.fields
                               (find (\<lambda>t. ten_id t = pay_tenantId payment) tenants)))
                     payments)))"

text \<open>
  Most recent first: the comparator is \<open>b.createdAt.getTime() - a.createdAt.getTime()\<close>,
  and \<open>Array.prototype.sort\<close> is stable.
\<close>

definition getNotificationsByUser :: "storage \<Rightarrow> nat \<Rightarrow> notification list" where
  "getNotificationsByUser s userId =
     sort_key (\<lambda>n. - getTime (ntf_createdAt n))
       (filter (\<lambda>notification. ntf_userId notification = userId)
          (Map_values (notificationMap s)))"

subsection \<open>The dashboard\<close>

record 'n monthEntry =
  month :: string
  amount :: 'n

record 'n dashboard =
  propertiesCount :: nat
  tenantsCount :: nat
  upcomingPaymentsTotal :: 'n
  overduePaymentsTotal :: 'n
  properties :: "propertyWithUnits list"
  tenantActivity :: "paymentWithTenant list"
  monthlyIncome :: "'n monthEntry list"

text \<open>
  \<open>reduce((sum, p) => sum + Number(p.amount), 0)\<close>. What \<open>Number\<close> makes of the
  stored numeric string is a parameter, and so is the number type \<open>'n\<close> with its
  \<open>+\<close> and \<open>0\<close>: the fold adds from the left, in the order of the list.
\<close>

definition sumAmounts ::
  "(string \<Rightarrow> 'n::{plus,zero}) \<Rightarrow> ('z payment_scheme) list \<Rightarrow> 'n" where
  "sumAmounts Number ps = foldl (\<lambda>sum p. sum + Number (pay_amount p)) 0 ps"

definition upcomingPayments :: "jsdate \<Rightarrow> ('z payment_scheme) list \<Rightarrow> ('z payment_scheme) list" where
  "upcomingPayments now payments =
     filter (\<lambda>p. pay_status p = ''pending'' \<and> getTime (pay_dueDate p) > getTime now) payments"

definition overduePayments :: "jsdate \<Rightarrow> ('z payment_scheme) list \<Rightarrow> ('z payment_scheme) list" where
  "overduePayments now payments =
     filter (\<lambda>p. pay_status p = ''overdue'' \<or>
                 (pay_status p = ''pending'' \<and> getTime (pay_dueDate p) < getTime now)) payments"

text \<open>
  The payments of one month bucket: \<open>month\<close> is \<open>new Date(year, monthIndex, 1)\<close>,
  given by the year and month it reports.
\<close>

definition monthPayments ::
  "int \<times> int \<Rightarrow> ('z payment_scheme) list \<Rightarrow> ('z payment_scheme) list" where
  "monthPayments m payments =
     filter (\<lambda>p. case pay_paymentDate p of
                   None \<Rightarrow> False
                 | Some paymentDate \<Rightarrow>
                     getMonth paymentDate = snd m \<and>
                     getFullYear paymentDate = fst m \<and>
                     pay_status p = ''paid'') payments"

text \<open>
  One pass of the loop body for the counter \<open>i\<close>. The month name comes from
  \<open>toLocaleString\<close>, which depends on the locale of the process: a parameter, applied
  to the year and month of the date.
\<close>

definition monthlyIncomeEntry ::
  "(string \<Rightarrow> 'n::{plus,zero}) \<Rightarrow> (int \<times> int \<Rightarrow> string) \<Rightarrow> jsdate \<Rightarrow>
   ('z payment_scheme) list \<Rightarrow> int \<Rightarrow> 'n monthEntry" where
  "monthlyIncomeEntry Number toLocaleString today payments i =
     (let m = Date_year_month (getFullYear today) (getMonth today - i);
          monthName = toLocaleString m;
          yearShort = drop 2 (toString (fst m));
          total = sumAmounts Number (monthPayments m payments)
      in \<lparr> month = monthName @ [CHR '' '', CHR 0x27] @ yearShort, amount = total \<rparr>)"

text \<open>\<open>for (let i = 5; i >= 0; i--) { ...; monthlyIncome.push(...) }\<close>, with the array
  \<open>monthlyIncome\<close> as the accumulator \<open>acc\<close>.\<close>

function monthlyIncomeLoop ::
  "(string \<Rightarrow> 'n::{plus,zero}) \<Rightarrow> (int \<times> int \<Rightarrow> string) \<Rightarrow> jsdate \<Rightarrow>
   ('z payment_scheme) list \<Rightarrow> int \<Rightarrow> 'n monthEntry list \<Rightarrow> 'n monthEntry list" where
  "monthlyIncomeLoop Number toLocaleString today payments i acc =
     (if i \<ge> 0
      then monthlyIncomeLoop Number toLocaleString today payments (i - 1)
             (acc @ [monthlyIncomeEntry Number toLocaleString today payments i])
      else acc)"
  by pat_completeness auto
termination
  by (relation "measure (\<lambda>(Number, toLocaleString, today, payments, i, acc). nat (i + 1))")
     auto

declare monthlyIncomeLoop.simps [simp del]

text \<open>
  \<open>getDashboardData\<close>. The two clock readings \<open>now\<close> and \<open>today\<close> are arguments.
  \<open>payments.sort(...)\<close> sorts the array in place, so the month buckets read the
  payments most recently created first, while the two totals, computed before,
  read them in the order of the payment map.
\<close>

definition getDashboardData ::
  "(string \<Rightarrow> 'n::{plus,zero}) \<Rightarrow> (int \<times> int \<Rightarrow> string) \<Rightarrow> jsdate \<Rightarrow> jsdate \<Rightarrow>
   storage \<Rightarrow> nat \<Rightarrow> error + 'n dashboard" where
  "getDashboardData Number toLocaleString now today s landlordId =
     (let props = getPropertiesByLandlord s landlordId
      in (case getTenantsByLandlord s landlordId of
            Inl e \<Rightarrow> Inl e
          | Inr tenants \<Rightarrow>
             (case getPaymentsByLandlord s landlordId of
                Inl e \<Rightarrow> Inl e
              | Inr payments \<Rightarrow>
                 (let upcoming = upcomingPayments now payments;
                      overdue = overduePayments now payments;
                      propertiesWithUnits =
                        map (\<lambda>property.
                               property.extend property
                                 (propertyWithUnits.fields
                                    (getUnitsByProperty s (prop_id property))))
                          props;
                      sorted = sort_key (\<lambda>p. - getTime (pay_createdAt p)) payments;
                      activity = take 10 sorted;
                      income = monthlyIncomeLoop Number toLocaleString today sorted 5 []
                  in Inr \<lparr> propertiesCount = length props,
                           tenantsCount = length tenants,
                           upcomingPaymentsTotal = sumAmounts Number upcoming,
                           overduePaymentsTotal = sumAmounts Number overdue,
                           properties = propertiesWithUnits,
                           tenantActivity = activity,
                           monthlyIncome = income \<rparr>))))"

subsection \<open>Runs of the store\<close>

text \<open>
  The mutating methods as a datatype of calls, so that a life of the store is a list of
  calls run from the constructor's state. \<open>exec\<close> reports the entity type and the id
  of the record a create call returns.
\<close>

datatype kind = KUser | KProperty | KUnit | KTenant | KPayment | KNotification

datatype call =
    CreateUser insertUser jsdate
  | CreateProperty insertProperty jsdate
  | UpdateProperty nat partialProperty
  | DeleteProperty nat
  | CreateUnit insertUnit jsdate
  | UpdateUnit nat partialUnit
  | DeleteUnit nat
  | CreateTenant insertTenant jsdate
  | UpdateTenant nat partialTenant
  | DeleteTenant nat
  | CreatePayment insertPayment jsdate
  | UpdatePayment nat partialPayment
  | DeletePayment nat
  | CreateNotification insertNotification jsdate
  | UpdateNotification nat partialNotification
  | DeleteNotification nat
  | MarkNotificationAsRead nat

fun exec :: "call \<Rightarrow> storage \<Rightarrow> (kind \<times> nat) option \<times> storage" where
  "exec (CreateUser d now) s =
     (Some (KUser, usr_id (fst (createUser d now s))), snd (createUser d now s))"
| "exec (CreateProperty d now) s =
     (Some (KProperty, prop_id (fst (createProperty d now s))), snd (createProperty d now s))"
| "exec (UpdateProperty i d) s = (None, snd (updateProperty i d s))"
| "exec (DeleteProperty i) s = (None, snd (deleteProperty i s))"
| "exec (CreateUnit d now) s =
     (Some (KUnit, unit_id (fst (createUnit d now s))), snd (createUnit d now s))"
| "exec (UpdateUnit i d) s = (None, snd (updateUnit i d s))"
| "exec (DeleteUnit i) s = (None, snd (deleteUnit i s))"
| "exec (CreateTenant d now) s =
     (Some (KTenant, ten_id (fst (createTenant d now s))), snd (createTenant d now s))"
| "exec (UpdateTenant i d) s = (None, snd (updateTenant i d s))"
| "exec (DeleteTenant i) s = (None, snd (deleteTenant i s))"
| "exec (CreatePayment d now) s =
     (Some (KPayment, pay_id (fst (createPayment d now s))), snd (createPayment d now s))"
| "exec (UpdatePayment i d) s = (None, snd (updatePayment i d s))"
| "exec (DeletePayment i) s = (None, snd (deletePayment i s))"
| "exec (CreateNotification d now) s =
     (Some (KNotification, ntf_id (fst (createNotification d now s))),
      snd (createNotification d now s))"
| "exec (UpdateNotification i d) s = (None, snd (updateNotification i d s))"
| "exec (DeleteNotification i) s = (None, snd (deleteNotification i s))"
| "exec (MarkNotificationAsRead i) s = (None, snd (markNotificationAsRead i s))"

fun run :: "call list \<Rightarrow> storage \<Rightarrow> (kind \<times> nat) list \<times> storage" where
  "run [] s = ([], s)"
| "run (c # cs) s =
     (let rest = run cs (snd (exec c s))
      in ((case fst (exec c s) of None \<Rightarrow> fst rest | Some x \<Rightarrow> x # fst rest), snd rest))"

text \<open>The ids issued for one entity type during a run from the fresh store, in order.\<close>

definition issued :: "kind \<Rightarrow> call list \<Rightarrow> nat list" where
  "issued k cs = map snd (filter (\<lambda>x. fst x = k) (fst (run cs MemStorage)))"

definition counter :: "kind \<Rightarrow> storage \<Rightarrow> nat" where
  "counter k s =
     (case k of
        KUser \<Rightarrow> cur_user (currentId s)
      | KProperty \<Rightarrow> cur_property (currentId s)
      | KUnit \<Rightarrow> cur_unit (currentId s)
      | KTenant \<Rightarrow> cur_tenant (currentId s)
      | KPayment \<Rightarrow> cur_payment (currentId s)
      | KNotification \<Rightarrow> cur_notification (currentId s))"

text \<open>
  The entity type a call creates a record of, and the counter a create advances.
\<close>

definition creates :: "call \<Rightarrow> kind option" where
  "creates c =
     (case c of
        CreateUser d now \<Rightarrow> Some KUser
      | CreateProperty d now \<Rightarrow> Some KProperty
      | CreateUnit d now \<Rightarrow> Some KUnit
      | CreateTenant d now \<Rightarrow> Some KTenant
      | CreatePayment d now \<Rightarrow> Some KPayment
      | CreateNotification d now \<Rightarrow> Some KNotification
      | _ \<Rightarrow> None)"

definition bump :: "kind \<Rightarrow> idCounters \<Rightarrow> idCounters" where
  "bump k c =
     (case k of
        KUser \<Rightarrow> c\<lparr>cur_user := cur_user c + 1\<rparr>
      | KProperty \<Rightarrow> c\<lparr>cur_property := cur_property c + 1\<rparr>
      | KUnit \<Rightarrow> c\<lparr>cur_unit := cur_unit c + 1\<rparr>
      | KTenant \<Rightarrow> c\<lparr>cur_tenant := cur_tenant c + 1\<rparr>
      | KPayment \<Rightarrow> c\<lparr>cur_payment := cur_payment c + 1\<rparr>
      | KNotification \<Rightarrow> c\<lparr>cur_notification := cur_notification c + 1\<rparr>)"

subsection \<open>Well-formed stores and the occupancy invariant\<close>

text \<open>
  What every run from the fresh store maintains for each of its maps: a key occurs
  once, a record is stored under its own id, and the ids in use lie between 1 and the
  counter of the entity type, which is at least 1.
\<close>

definition keyed :: "('v \<Rightarrow> nat) \<Rightarrow> nat \<Rightarrow> 'v jsmap \<Rightarrow> bool" where
  "keyed ident next m =
     (1 \<le> next \<and> distinct (map fst m) \<and>
      list_all (\<lambda>p. ident (snd p) = fst p \<and> 1 \<le> fst p \<and> fst p < next) m)"

definition wellFormed :: "storage \<Rightarrow> bool" where
  "wellFormed s =
     (keyed usr_id (cur_user (currentId s)) (userMap s) \<and>
      keyed prop_id (cur_property (currentId s)) (propertyMap s) \<and>
      keyed unit_id (cur_unit (currentId s)) (unitMap s) \<and>
      keyed ten_id (cur_tenant (currentId s)) (tenantMap s) \<and>
      keyed pay_id (cur_payment (currentId s)) (paymentMap s) \<and>
      keyed ntf_id (cur_notification (currentId s)) (notificationMap s))"

text \<open>
  The occupancy invariant of the data model: a unit is flagged occupied exactly when
  some tenant row with its id as \<open>unitId\<close> is active.
\<close>

definition hasActiveTenant :: "storage \<Rightarrow> nat \<Rightarrow> bool" where
  "hasActiveTenant s unitId =
     list_ex (\<lambda>t. ten_unitId t = unitId \<and> truthy (ten_isActive t)) (Map_values (tenantMap s))"

definition occupancyInvariant :: "storage \<Rightarrow> bool" where
  "occupancyInvariant s =
     list_all (\<lambda>u. truthy (unit_isOccupied u) = hasActiveTenant s (unit_id u))
       (Map_values (unitMap s))"

subsection \<open>The occupancy bookkeeping, by its parts\<close>

text \<open>
  Names for the pieces of \<open>updateTenant\<close> and \<open>deleteTenant\<close> that touch the unit
  map, for use in the proofs: clearing the flag of a unit that no other active tenant
  uses (\<open>vacate\<close>), the body of the branch taken when the unit id changes
  (\<open>relocate\<close>), and the condition of that branch (\<open>moves\<close>; \<open>0\<close> is falsy).
  The lemmas \<open>deleteTenant_alt\<close> and \<open>updateTenant_alt\<close> below show that the two
  methods are composed of exactly these pieces.
\<close>

definition vacate :: "nat \<Rightarrow> unitRow \<Rightarrow> storage \<Rightarrow> storage" where
  "vacate i unit s =
     (if length (otherTenants s i unit) = 0
      then snd (updateUnit (unit_id unit) (isOccupied_only False) s) else s)"

definition relocate :: "nat \<Rightarrow> tenant \<Rightarrow> nat \<Rightarrow> storage \<Rightarrow> storage" where
  "relocate i tenant newUnitId s =
     (let s1 = (case getUnit s (ten_unitId tenant) of None \<Rightarrow> s | Some ou \<Rightarrow> vacate i ou s)
      in (case getUnit s newUnitId of
            None \<Rightarrow> s1
          | Some nu \<Rightarrow> snd (updateUnit (unit_id nu) (isOccupied_only True) s1)))"

definition moves :: "tenant \<Rightarrow> partialTenant \<Rightarrow> bool" where
  "moves tenant d =
     (case pten_unitId d of None \<Rightarrow> False | Some n \<Rightarrow> n \<noteq> 0 \<and> n \<noteq> ten_unitId tenant)"

text \<open>
  The occupancy invariant read through the lookups: some active tenant row references
  unit \<open>k\<close>, and some active tenant row other than the one stored under \<open>i\<close> does.
\<close>

definition activeOn :: "storage \<Rightarrow> nat \<Rightarrow> bool" where
  "activeOn s k = (\<exists>j t. getTenant s j = Some t \<and> ten_unitId t = k \<and> truthy (ten_isActive t))"

definition otherActiveOn :: "storage \<Rightarrow> nat \<Rightarrow> nat \<Rightarrow> bool" where
  "otherActiveOn s i k =
     (\<exists>j t. j \<noteq> i \<and> getTenant s j = Some t \<and> ten_unitId t = k \<and> truthy (ten_isActive t))"

text \<open>
  Unit \<open>k\<close> is in the store and its flag is right: it is flagged occupied exactly when
  some active tenant row references it. The occupancy invariant says this of every unit
  of the store (\<open>occupancyInvariant_flagRight\<close> below).
\<close>

definition flagRight :: "storage \<Rightarrow> nat \<Rightarrow> bool" where
  "flagRight s k =
     (case getUnit s k of
        None \<Rightarrow> False
      | Some u \<Rightarrow> truthy (unit_isOccupied u) = activeOn s k)"

text \<open>
  A tenant row belongs to a landlord when its unit exists and the property of that
  unit exists and is owned by the landlord. The \<open>isActive\<close> field plays no part.
\<close>

definition belongsTo :: "storage \<Rightarrow> nat \<Rightarrow> tenant \<Rightarrow> bool" where
  "belongsTo s landlordId t =
     (case getUnit s (ten_unitId t) of
        None \<Rightarrow> False
      | Some u \<Rightarrow>
          (case getProperty s (unit_propertyId u) of
             None \<Rightarrow> False
           | Some p \<Rightarrow> prop_landlordId p = landlordId))"

text \<open>
  The payments of a landlord, as the specification words them: the stored payments, in
  the order of the payment map, whose tenant row exists and belongs to the landlord.
\<close>

definition landlordPayments :: "storage \<Rightarrow> nat \<Rightarrow> payment list" where
  "landlordPayments s landlordId =
     filter (\<lambda>p. case getTenant s (pay_tenantId p) of
                   None \<Rightarrow> False
                 | Some t \<Rightarrow> belongsTo s landlordId t)
       (Map_values (paymentMap s))"

subsection \<open>Calendar months, as the specification words them\<close>

text \<open>
  For comparison with the loop of \<open>getDashboardData\<close>: calendar months are numbered
  consecutively (\<open>12 * year + month index\<close>), so that the month \<open>n\<close> months before
  the current one is the current number minus \<open>n\<close>; and a payment is paid in a
  month when its status is \<open>paid\<close> and its payment date falls in that month and
  year.
\<close>

definition monthNumber :: "jsdate \<Rightarrow> int" where
  "monthNumber d = 12 * getFullYear d + getMonth d"

definition calendarMonth :: "int \<Rightarrow> int \<times> int" where
  "calendarMonth c = (c div 12, c mod 12)"

definition paidIn :: "int \<times> int \<Rightarrow> 'z payment_scheme \<Rightarrow> bool" where
  "paidIn m p =
     (pay_status p = ''paid'' \<and>
      (case pay_paymentDate p of
         None \<Rightarrow> False
       | Some d \<Rightarrow> getFullYear d = fst m \<and> getMonth d = snd m))"

subsection \<open>The seed data\<close>

text \<open>
  The store as the module leaves it after its start-up block: a landlord, a tenant
  user, one property with two units, one tenant on the first unit, three payments
  and one notification. The clock stands at 3 November 2026 (UTC); the password
  strings stand for the scrypt hashes. The ids in the later calls are the ids the
  earlier creates return.
\<close>

definition clock :: jsdate where
  "clock = \<lparr> getTime = 1793664000000, getFullYear = 2026, getMonth = 10 \<rparr>"

definition seed_landlord :: insertUser where
  "seed_landlord =
     \<lparr> usr_username = ''landlord'', usr_password = ''5f4dcc3b.a1b2'', usr_firstName = ''John'',
       usr_lastName = ''Smith'', usr_email = ''landlord@example.com'',
       usr_phone = Some ''555-123-4567'', usr_userType = ''landlord'' \<rparr>"

definition seed_tenantUser :: insertUser where
  "seed_tenantUser =
     \<lparr> usr_username = ''tenant'', usr_password = ''5f4dcc3b.c3d4'', usr_firstName = ''Jane'',
       usr_lastName = ''Doe'', usr_email = ''tenant@example.com'',
       usr_phone = Some ''555-987-6543'', usr_userType = ''tenant'' \<rparr>"

definition seed_property :: insertProperty where
  "seed_property =
     \<lparr> prop_landlordId = 1, prop_name = ''Maple Apartments'', prop_address = ''123 Maple Street'',
       prop_city = ''Springfield'', prop_state = ''IL'', prop_zip = ''62701'',
       prop_totalUnits = 4, prop_isActive = Some True \<rparr>"

definition seed_unit1 :: insertUnit where
  "seed_unit1 =
     \<lparr> unit_propertyId = 1, unit_unitNumber = ''101'', unit_monthlyRent = ''1200'',
       unit_bedrooms = 2, unit_bathrooms = ''1'', unit_sqft = Some 950,
       unit_description = None, unit_isOccupied = Some True \<rparr>"

definition seed_unit2 :: insertUnit where
  "seed_unit2 =
     \<lparr> unit_propertyId = 1, unit_unitNumber = ''102'', unit_monthlyRent = ''950'',
       unit_bedrooms = 1, unit_bathrooms = ''1'', unit_sqft = Some 750,
       unit_description = None, unit_isOccupied = Some False \<rparr>"

definition seed_tenant :: insertTenant where
  "seed_tenant =
     \<lparr> ten_userId = 2, ten_unitId = 1,
       ten_leaseStartDate = \<lparr> getTime = 1672531200000, getFullYear = 2023, getMonth = 0 \<rparr>,
       ten_leaseEndDate = \<lparr> getTime = 1703980800000, getFullYear = 2023, getMonth = 11 \<rparr>,
       ten_rentDueDay = 1, ten_isActive = Some True \<rparr>"

definition seed_payment1 :: insertPayment where
  "seed_payment1 =
     \<lparr> pay_tenantId = 1, pay_amount = ''1200'',
       pay_dueDate = \<lparr> getTime = 1788220800000, getFullYear = 2026, getMonth = 8 \<rparr>,
       pay_paymentDate = Some \<lparr> getTime = 1788393600000, getFullYear = 2026, getMonth = 8 \<rparr>,
       pay_status = ''paid'', pay_paymentMethod = Some ''Credit Card'', pay_notes = None \<rparr>"

definition seed_payment2 :: insertPayment where
  "seed_payment2 =
     \<lparr> pay_tenantId = 1, pay_amount = ''1200'',
       pay_dueDate = \<lparr> getTime = 1790812800000, getFullYear = 2026, getMonth = 9 \<rparr>,
       pay_paymentDate = Some \<lparr> getTime = 1790899200000, getFullYear = 2026, getMonth = 9 \<rparr>,
       pay_status = ''paid'', pay_paymentMethod = Some ''Credit Card'', pay_notes = None \<rparr>"

definition seed_payment3 :: insertPayment where
  "seed_payment3 =
     \<lparr> pay_tenantId = 1, pay_amount = ''1200'',
       pay_dueDate = \<lparr> getTime = 1793491200000, getFullYear = 2026, getMonth = 10 \<rparr>,
       pay_paymentDate = None,
       pay_status = ''pending'', pay_paymentMethod = None, pay_notes = None \<rparr>"

definition seed_notification :: insertNotification where
  "seed_notification =
     \<lparr> ntf_userId = 2, ntf_message = ''Your rent payment is due tomorrow'',
       ntf_type = ''payment'', ntf_isRead = Some False \<rparr>"

definition seedCalls :: "call list" where
  "seedCalls =
     [CreateUser seed_landlord clock, CreateUser seed_tenantUser clock,
      CreateProperty seed_property clock,
      CreateUnit seed_unit1 clock, CreateUnit seed_unit2 clock,
      CreateTenant seed_tenant clock,
      CreatePayment seed_payment1 clock, CreatePayment seed_payment2 clock,
      CreatePayment seed_payment3 clock,
      CreateNotification seed_notification clock]"

definition seedStore :: storage where
  "seedStore = snd (run seedCalls MemStorage)"

text \<open>
  Partial updates used on the seed store: \<open>{ isActive: false }\<close>, with which the
  HTTP layer retires a tenant, and \<open>{ unitId: n }\<close>, which moves one.
\<close>

definition noTenantData :: partialTenant where
  "noTenantData =
     \<lparr> pten_userId = None, pten_unitId = None, pten_leaseStartDate = None,
       pten_leaseEndDate = None, pten_rentDueDay = None, pten_isActive = None \<rparr>"

definition deactivate :: partialTenant where
  "deactivate = noTenantData\<lparr> pten_isActive := Some (Some False) \<rparr>"

definition moveTo :: "nat \<Rightarrow> partialTenant" where
  "moveTo n = noTenantData\<lparr> pten_unitId := Some n \<rparr>"

text \<open>
  Stores derived from the seed store: with a second tenant row for unit 1
  (\<open>sharedStore\<close>), with the tenant retired by \<open>{ isActive: false }\<close>
  (\<open>retiredStore\<close>); and the fresh store with only the first seed unit, which is
  created flagged occupied (\<open>flaggedStore\<close>).
\<close>

definition sharedStore :: storage where
  "sharedStore = snd (createTenant seed_tenant clock seedStore)"

definition retiredStore :: storage where
  "retiredStore = snd (updateTenant 1 deactivate seedStore)"



definition strayTenant :: insertTenant where
  "strayTenant = seed_tenant\<lparr> ten_unitId := 9 \<rparr>"


definition pairedStore :: storage where
  "pairedStore = snd (updateTenant 2 deactivate sharedStore)"


definition renameProperty :: partialProperty where
  "renameProperty =
     \<lparr> pprop_landlordId = None, pprop_name = Some ''Oak Court'', pprop_address = None,
       pprop_city = None, pprop_state = None, pprop_zip = None, pprop_totalUnits = None,
       pprop_isActive = None \<rparr>"

definition markPaid :: partialPayment where
  "markPaid =
     \<lparr> ppay_tenantId = None, ppay_amount = None, ppay_dueDate = None,
       ppay_paymentDate = Some (Some clock), ppay_status = Some ''paid'',
       ppay_paymentMethod = Some (Some ''Online Payment''), ppay_notes = None \<rparr>"

definition markRead :: partialNotification where
  "markRead =
     \<lparr> pntf_userId = None, pntf_message = None, pntf_type = None,
       pntf_isRead = Some (Some True) \<rparr>"

text \<open>The due date of the pending seed payment, as an aggregation instant.\<close>

definition dueInstant :: jsdate where
  "dueInstant = pay_dueDate seed_payment3"

text \<open>
  For evaluating the dashboard on the seed store: \<open>Number\<close> on strings of decimal
  digits, and the English month names.
\<close>

definition decimal :: "string \<Rightarrow> int" where
  "decimal str = foldl (\<lambda>a c. 10 * a + (of_char c - 48)) 0 str"

definition englishMonth :: "int \<times> int \<Rightarrow> string" where
  "englishMonth m =
     [''January'', ''February'', ''March'', ''April'', ''May'', ''June'', ''July'', ''August'',
      ''September'', ''October'', ''November'', ''December''] ! nat (snd m)"

section \<open>Properties of the store\<close>

subsection \<open>Maps\<close>

lemma Map_get_set: "Map_get (Map_set k v m) k' = (if k' = k then Some v else Map_get m k')"
  by (induction m) (auto simp: Map_get_def)

lemma Map_set_keys: "fst ` set (Map_set k v m) = insert k (fst ` set m)"
  by (induction m) auto

lemma Map_set_distinct: "distinct (map fst m) \<Longrightarrow> distinct (map fst (Map_set k v m))"
proof (induction m)
  case Nil
  then show ?case by simp
next
  case (Cons p ps)
  then show ?case using Map_set_keys[of k v ps] by auto
qed

lemma Map_set_entries: "set (Map_set k v m) \<subseteq> insert (k, v) (set m)"
  by (induction m) auto

lemma Map_get_delete: "Map_get (Map_delete k m) k' = (if k' = k then None else Map_get m k')"
  by (induction m) (auto simp: Map_get_def Map_delete_def)

lemma Map_get_None_iff: "Map_get m k = None \<longleftrightarrow> k \<notin> set (map fst m)"
  by (simp add: Map_get_def map_of_eq_None_iff)

lemma Map_values_iff:
  "distinct (map fst m) \<Longrightarrow> v \<in> set (Map_values m) \<longleftrightarrow> (\<exists>k. Map_get m k = Some v)"
  by (force simp: Map_values_def Map_get_def)

lemma keyed_get:
  "keyed f n m \<Longrightarrow> Map_get m k = Some v \<Longrightarrow> f v = k \<and> 1 \<le> k \<and> k < n"
  by (auto simp: keyed_def Map_get_def list_all_iff dest!: map_of_SomeD)

lemma keyed_pos: "keyed f n m \<Longrightarrow> 1 \<le> n"
  by (simp add: keyed_def)

lemma keyed_distinct: "keyed f n m \<Longrightarrow> distinct (map fst m)"
  by (simp add: keyed_def)

lemma keyed_set:
  assumes "keyed f n m" "f v = k" "1 \<le> k" "k < n'" "n \<le> n'"
  shows "keyed f n' (Map_set k v m)"
proof -
  have "\<forall>p \<in> set (Map_set k v m). f (snd p) = fst p \<and> 1 \<le> fst p \<and> fst p < n'"
    using assms Map_set_entries[of k v m] by (fastforce simp: keyed_def list_all_iff)
  then show ?thesis
    using assms(1,3,4) by (simp add: keyed_def list_all_iff Map_set_distinct)
qed

lemma keyed_delete: "keyed f n m \<Longrightarrow> keyed f n (Map_delete k m)"
  by (auto simp: keyed_def Map_delete_def list_all_iff distinct_map_filter)

lemma keyed_values:
  "keyed f n m \<Longrightarrow> v \<in> set (Map_values m) \<longleftrightarrow> Map_get m (f v) = Some v"
  using keyed_get[of f n m] by (auto simp: Map_values_iff keyed_distinct)

lemma spread_ids [simp]:
  "prop_id (spreadProperty p pd) = prop_id p"
  "unit_id (spreadUnit u ud) = unit_id u"
  "ten_id (spreadTenant t td) = ten_id t"
  "pay_id (spreadPayment y yd) = pay_id y"
  "ntf_id (spreadNotification n nd) = ntf_id n"
  by (simp_all add: spreadProperty_def spreadUnit_def spreadTenant_def spreadPayment_def
      spreadNotification_def)

lemma extend_ids [simp]:
  "usr_id (insertUser.extend a (user.fields i now)) = i"
  "prop_id (insertProperty.extend b (property.fields i now)) = i"
  "unit_id (insertUnit.extend c (unitRow.fields i now)) = i"
  "ten_id (insertTenant.extend d (tenant.fields i now)) = i"
  "pay_id (insertPayment.extend e (payment.fields i now)) = i"
  "ntf_id (insertNotification.extend g (notification.fields i now)) = i"
  by (simp_all add: insertUser.defs user.defs insertProperty.defs property.defs insertUnit.defs
      unitRow.defs insertTenant.defs tenant.defs insertPayment.defs payment.defs
      insertNotification.defs notification.defs)

lemma keyed_update:
  assumes "keyed f n m" "Map_get m k = Some v" "f v' = f v"
  shows "keyed f n (Map_set k v' m)"
  using keyed_get[OF assms(1,2)] assms by (intro keyed_set[where n = n]) auto

lemma keyed_create:
  assumes "keyed f n m" "f v = n"
  shows "keyed f (Suc n) (Map_set n v m)"
  using assms keyed_pos [OF assms(1)] by (intro keyed_set[where n = n]) auto

lemma keyed_mono: "keyed f n m \<Longrightarrow> n \<le> n' \<Longrightarrow> keyed f n' m"
  by (auto simp: keyed_def list_all_iff)

subsection \<open>What \<open>updateUnit\<close> leaves alone\<close>

lemma updateUnit_frame:
  "userMap (snd (updateUnit i d s)) = userMap s"
  "propertyMap (snd (updateUnit i d s)) = propertyMap s"
  "tenantMap (snd (updateUnit i d s)) = tenantMap s"
  "paymentMap (snd (updateUnit i d s)) = paymentMap s"
  "notificationMap (snd (updateUnit i d s)) = notificationMap s"
  "currentId (snd (updateUnit i d s)) = currentId s"
  by (simp_all add: updateUnit_def Let_def split: option.splits)

lemma updateUnit_keyed:
  "keyed unit_id n (unitMap s) \<Longrightarrow> keyed unit_id n (unitMap (snd (updateUnit i d s)))"
  by (auto simp: updateUnit_def Let_def keyed_update split: option.splits)

subsection \<open>The seed store, evaluated\<close>

lemma spreadUnit_isOccupied_only:
  "spreadUnit u (isOccupied_only b) = u\<lparr>unit_isOccupied := Some b\<rparr>"
  by (simp add: spreadUnit_def isOccupied_only_def spread_def)

lemma seedCalls_run:
  "run seedCalls MemStorage =
    ([(KUser, 1), (KUser, 2), (KProperty, 1), (KUnit, 1), (KUnit, 2), (KTenant, 1),
      (KPayment, 1), (KPayment, 2), (KPayment, 3), (KNotification, 1)],
     \<lparr> userMap = [(1, insertUser.extend seed_landlord (user.fields 1 clock)),
                  (2, insertUser.extend seed_tenantUser (user.fields 2 clock))],
       propertyMap = [(1, insertProperty.extend seed_property (property.fields 1 clock))],
       unitMap = [(1, insertUnit.extend seed_unit1 (unitRow.fields 1 clock)),
                  (2, insertUnit.extend seed_unit2 (unitRow.fields 2 clock))],
       tenantMap = [(1, insertTenant.extend seed_tenant (tenant.fields 1 clock))],
       paymentMap = [(1, insertPayment.extend seed_payment1 (payment.fields 1 clock)),
                     (2, insertPayment.extend seed_payment2 (payment.fields 2 clock)),
                     (3, insertPayment.extend seed_payment3 (payment.fields 3 clock))],
       notificationMap =
         [(1, insertNotification.extend seed_notification (notification.fields 1 clock))],
       currentId = \<lparr> cur_user = 3, cur_property = 2, cur_unit = 3, cur_tenant = 2,
                     cur_payment = 4, cur_notification = 2 \<rparr> \<rparr>)"
  by (simp add: seedCalls_def MemStorage_def createUser_def createProperty_def
      createUnit_def createTenant_def createPayment_def createNotification_def Let_def
      getUnit_def Map_get_def updateUnit_def spreadUnit_isOccupied_only
      seed_tenant_def seed_unit1_def insertUnit.defs unitRow.defs insertTenant.defs
      tenant.defs eval_nat_numeral)

lemma seedStore_eq:
  "seedStore =
     \<lparr> userMap = [(1, insertUser.extend seed_landlord (user.fields 1 clock)),
                  (2, insertUser.extend seed_tenantUser (user.fields 2 clock))],
       propertyMap = [(1, insertProperty.extend seed_property (property.fields 1 clock))],
       unitMap = [(1, insertUnit.extend seed_unit1 (unitRow.fields 1 clock)),
                  (2, insertUnit.extend seed_unit2 (unitRow.fields 2 clock))],
       tenantMap = [(1, insertTenant.extend seed_tenant (tenant.fields 1 clock))],
       paymentMap = [(1, insertPayment.extend seed_payment1 (payment.fields 1 clock)),
                     (2, insertPayment.extend seed_payment2 (payment.fields 2 clock)),
                     (3, insertPayment.extend seed_payment3 (payment.fields 3 clock))],
       notificationMap =
         [(1, insertNotification.extend seed_notification (notification.fields 1 clock))],
       currentId = \<lparr> cur_user = 3, cur_property = 2, cur_unit = 3, cur_tenant = 2,
                     cur_payment = 4, cur_notification = 2 \<rparr> \<rparr>"
  by (simp add: seedStore_def seedCalls_run)

subsection \<open>Id counters\<close>

lemma deleteTenant_alt:
  "deleteTenant i s =
     (let s1 = (case Map_get (tenantMap s) i of
                  None \<Rightarrow> s
                | Some t \<Rightarrow> (case getUnit s (ten_unitId t) of None \<Rightarrow> s | Some u \<Rightarrow> vacate i u s))
      in (Map_has (tenantMap s1) i, s1\<lparr>tenantMap := Map_delete i (tenantMap s1)\<rparr>))"
  by (simp add: deleteTenant_def vacate_def split: option.splits)

lemma updateTenant_alt:
  "updateTenant i d s =
     (case Map_get (tenantMap s) i of
        None \<Rightarrow> (None, s)
      | Some t \<Rightarrow>
          (let s3 = (if moves t d then relocate i t (the (pten_unitId d)) s else s)
           in (Some (spreadTenant t d),
               s3\<lparr>tenantMap := Map_set i (spreadTenant t d) (tenantMap s3)\<rparr>)))"
  by (simp add: updateTenant_def relocate_def vacate_def moves_def Let_def split: option.splits)

lemma vacate_frame:
  "userMap (vacate i u s) = userMap s"
  "propertyMap (vacate i u s) = propertyMap s"
  "tenantMap (vacate i u s) = tenantMap s"
  "paymentMap (vacate i u s) = paymentMap s"
  "notificationMap (vacate i u s) = notificationMap s"
  "currentId (vacate i u s) = currentId s"
  by (simp_all add: vacate_def updateUnit_frame)

lemma relocate_frame:
  "userMap (relocate i t n s) = userMap s"
  "propertyMap (relocate i t n s) = propertyMap s"
  "tenantMap (relocate i t n s) = tenantMap s"
  "paymentMap (relocate i t n s) = paymentMap s"
  "notificationMap (relocate i t n s) = notificationMap s"
  "currentId (relocate i t n s) = currentId s"
  by (simp_all add: relocate_def Let_def updateUnit_frame vacate_frame split: option.splits)

lemma create_currentId:
  "currentId (snd (createUser a now s)) = bump KUser (currentId s)"
  "currentId (snd (createProperty b now s)) = bump KProperty (currentId s)"
  "currentId (snd (createUnit c now s)) = bump KUnit (currentId s)"
  "currentId (snd (createTenant d now s)) = bump KTenant (currentId s)"
  "currentId (snd (createPayment e now s)) = bump KPayment (currentId s)"
  "currentId (snd (createNotification g now s)) = bump KNotification (currentId s)"
  by (simp_all add: bump_def createUser_def createProperty_def createUnit_def createTenant_def
      createPayment_def createNotification_def Let_def updateUnit_frame split: option.splits)

lemma create_id:
  "usr_id (fst (createUser a now s)) = cur_user (currentId s)"
  "prop_id (fst (createProperty b now s)) = cur_property (currentId s)"
  "unit_id (fst (createUnit c now s)) = cur_unit (currentId s)"
  "ten_id (fst (createTenant d now s)) = cur_tenant (currentId s)"
  "pay_id (fst (createPayment e now s)) = cur_payment (currentId s)"
  "ntf_id (fst (createNotification g now s)) = cur_notification (currentId s)"
  by (simp_all add: createUser_def createProperty_def createUnit_def createTenant_def
      createPayment_def createNotification_def Let_def split: option.splits)

lemma update_currentId:
  "currentId (snd (updateProperty i pd s)) = currentId s"
  "currentId (snd (updateUnit i ud s)) = currentId s"
  "currentId (snd (updateTenant i td s)) = currentId s"
  "currentId (snd (updatePayment i yd s)) = currentId s"
  "currentId (snd (updateNotification i nd s)) = currentId s"
  "currentId (snd (markNotificationAsRead i s)) = currentId s"
  by (simp_all add: updateProperty_def updateUnit_def updateTenant_alt updatePayment_def
      updateNotification_def markNotificationAsRead_def Let_def relocate_frame
      split: option.splits)

lemma delete_currentId:
  "currentId (snd (deleteProperty i s)) = currentId s"
  "currentId (snd (deleteUnit i s)) = currentId s"
  "currentId (snd (deleteTenant i s)) = currentId s"
  "currentId (snd (deletePayment i s)) = currentId s"
  "currentId (snd (deleteNotification i s)) = currentId s"
  by (simp_all add: deleteProperty_def deleteUnit_def deleteTenant_alt deletePayment_def
      deleteNotification_def Let_def vacate_frame split: option.splits)

lemma exec_issues:
  "fst (exec c s) = (case creates c of None \<Rightarrow> None | Some k \<Rightarrow> Some (k, counter k s))"
  by (cases c) (simp_all add: creates_def counter_def create_id)

lemma exec_currentId:
  "currentId (snd (exec c s)) =
     (case creates c of None \<Rightarrow> currentId s | Some k \<Rightarrow> bump k (currentId s))"
  by (cases c)
     (simp_all add: creates_def create_currentId update_currentId delete_currentId)

lemma counter_bump: "counter k (s\<lparr>currentId := bump k' (currentId s)\<rparr>) = counter k s + (if k' = k then 1 else 0)"
  by (cases k; cases k') (simp_all add: counter_def bump_def)

lemma counter_cong: "currentId s = currentId s' \<Longrightarrow> counter k s = counter k s'"
  by (cases k) (simp_all add: counter_def)

lemma exec_counter:
  "counter k (snd (exec c s)) = counter k s + (if creates c = Some k then 1 else 0)"
proof (cases "creates c")
  case None
  then have "currentId (snd (exec c s)) = currentId s" by (simp add: exec_currentId)
  then have "counter k (snd (exec c s)) = counter k s" by (rule counter_cong)
  then show ?thesis using None by simp
next
  case (Some k')
  then have "currentId (snd (exec c s)) = currentId (s\<lparr>currentId := bump k' (currentId s)\<rparr>)"
    by (simp add: exec_currentId)
  then have "counter k (snd (exec c s)) = counter k (s\<lparr>currentId := bump k' (currentId s)\<rparr>)"
    by (rule counter_cong)
  then show ?thesis using Some by (simp add: counter_bump)
qed

lemma run_issues:
  "map snd (filter (\<lambda>x. fst x = k) (fst (run cs s))) =
     [counter k s ..< counter k s + length (filter (\<lambda>c. creates c = Some k) cs)]"
proof (induction cs arbitrary: s)
  case Nil
  then show ?case by simp
next
  case (Cons c cs)
  have step: "fst (run (c # cs) s) =
     (case fst (exec c s) of None \<Rightarrow> [] | Some x \<Rightarrow> [x]) @ fst (run cs (snd (exec c s)))"
    by (simp add: Let_def split: option.splits)
  show ?case
  proof (cases "creates c = Some k")
    case True
    then show ?thesis
      using Cons.IH [of "snd (exec c s)"]
      by (simp only: step) (simp add: exec_issues exec_counter upt_rec [of "counter k s"] del: upt_Suc)
  next
    case False
    then show ?thesis
      using Cons.IH [of "snd (exec c s)"]
      by (simp only: step) (auto simp: exec_issues exec_counter simp del: upt_Suc split: option.splits)
  qed
qed

lemma issued_upt: "issued k cs = [1 ..< Suc (length (issued k cs))]"
proof -
  have c1: "counter k MemStorage = 1"
    by (cases k) (simp_all add: counter_def MemStorage_def)
  have "issued k cs = [1 ..< 1 + length (filter (\<lambda>c. creates c = Some k) cs)]"
    unfolding issued_def by (simp only: run_issues c1)
  moreover from this have "length (issued k cs) = length (filter (\<lambda>c. creates c = Some k) cs)"
    by (simp del: upt_Suc)
  ultimately show ?thesis by (simp del: upt_Suc)
qed

subsection \<open>Every run keeps the store well formed\<close>

lemma vacate_keyed:
  "keyed unit_id n (unitMap s) \<Longrightarrow> keyed unit_id n (unitMap (vacate i u s))"
  by (simp add: vacate_def updateUnit_keyed)

lemma relocate_keyed:
  "keyed unit_id n (unitMap s) \<Longrightarrow> keyed unit_id n (unitMap (relocate i t k s))"
  by (simp add: relocate_def Let_def updateUnit_keyed vacate_keyed split: option.splits)

lemma wellFormed_MemStorage: "wellFormed MemStorage"
  by (simp add: wellFormed_def MemStorage_def keyed_def)

lemma wellFormed_createUser: "wellFormed s \<Longrightarrow> wellFormed (snd (createUser d now s))"
  by (simp add: wellFormed_def createUser_def Let_def keyed_create)

lemma wellFormed_createProperty: "wellFormed s \<Longrightarrow> wellFormed (snd (createProperty d now s))"
  by (simp add: wellFormed_def createProperty_def Let_def keyed_create)

lemma wellFormed_createUnit: "wellFormed s \<Longrightarrow> wellFormed (snd (createUnit d now s))"
  by (simp add: wellFormed_def createUnit_def Let_def keyed_create)

lemma wellFormed_createPayment: "wellFormed s \<Longrightarrow> wellFormed (snd (createPayment d now s))"
  by (simp add: wellFormed_def createPayment_def Let_def keyed_create)

lemma wellFormed_createNotification:
  "wellFormed s \<Longrightarrow> wellFormed (snd (createNotification d now s))"
  by (simp add: wellFormed_def createNotification_def Let_def keyed_create)

lemma wellFormed_createTenant: "wellFormed s \<Longrightarrow> wellFormed (snd (createTenant d now s))"
  by (simp add: wellFormed_def createTenant_def Let_def keyed_create updateUnit_frame
      updateUnit_keyed split: option.splits)

lemma wellFormed_updateProperty: "wellFormed s \<Longrightarrow> wellFormed (snd (updateProperty i d s))"
  by (auto simp: wellFormed_def updateProperty_def Let_def intro: keyed_update split: option.splits)

lemma wellFormed_updateUnit: "wellFormed s \<Longrightarrow> wellFormed (snd (updateUnit i d s))"
  by (simp add: wellFormed_def updateUnit_frame updateUnit_keyed)

lemma wellFormed_updatePayment: "wellFormed s \<Longrightarrow> wellFormed (snd (updatePayment i d s))"
  by (auto simp: wellFormed_def updatePayment_def Let_def intro: keyed_update split: option.splits)

lemma wellFormed_updateNotification:
  "wellFormed s \<Longrightarrow> wellFormed (snd (updateNotification i d s))"
  by (auto simp: wellFormed_def updateNotification_def Let_def intro: keyed_update
      split: option.splits)

lemma wellFormed_markNotificationAsRead:
  "wellFormed s \<Longrightarrow> wellFormed (snd (markNotificationAsRead i s))"
  by (auto simp: wellFormed_def markNotificationAsRead_def Let_def intro: keyed_update
      split: option.splits)

lemma wellFormed_updateTenant: "wellFormed s \<Longrightarrow> wellFormed (snd (updateTenant i d s))"
  by (auto simp: wellFormed_def updateTenant_alt Let_def relocate_frame relocate_keyed
      intro: keyed_update split: option.splits)

lemma wellFormed_deleteProperty: "wellFormed s \<Longrightarrow> wellFormed (snd (deleteProperty i s))"
  by (simp add: wellFormed_def deleteProperty_def keyed_delete)

lemma wellFormed_deleteUnit: "wellFormed s \<Longrightarrow> wellFormed (snd (deleteUnit i s))"
  by (simp add: wellFormed_def deleteUnit_def keyed_delete)

lemma wellFormed_deletePayment: "wellFormed s \<Longrightarrow> wellFormed (snd (deletePayment i s))"
  by (simp add: wellFormed_def deletePayment_def keyed_delete)

lemma wellFormed_deleteNotification:
  "wellFormed s \<Longrightarrow> wellFormed (snd (deleteNotification i s))"
  by (simp add: wellFormed_def deleteNotification_def keyed_delete)

lemma wellFormed_deleteTenant: "wellFormed s \<Longrightarrow> wellFormed (snd (deleteTenant i s))"
  by (simp add: wellFormed_def deleteTenant_alt Let_def keyed_delete vacate_frame vacate_keyed
      split: option.splits)

lemma wellFormed_exec: "wellFormed s \<Longrightarrow> wellFormed (snd (exec c s))"
  by (cases c)
     (simp_all add: wellFormed_createUser wellFormed_createProperty wellFormed_createUnit
       wellFormed_createTenant wellFormed_createPayment wellFormed_createNotification
       wellFormed_updateProperty wellFormed_updateUnit wellFormed_updateTenant
       wellFormed_updatePayment wellFormed_updateNotification wellFormed_markNotificationAsRead
       wellFormed_deleteProperty wellFormed_deleteUnit wellFormed_deleteTenant
       wellFormed_deletePayment wellFormed_deleteNotification)

lemma wellFormed_run: "wellFormed s \<Longrightarrow> wellFormed (snd (run cs s))"
  by (induction cs arbitrary: s) (simp_all add: Let_def wellFormed_exec)

lemma wellFormed_reachable: "wellFormed (snd (run cs MemStorage))"
  by (rule wellFormed_run [OF wellFormed_MemStorage])

lemma wellFormed_seedStore: "wellFormed seedStore"
  unfolding seedStore_def by (rule wellFormed_reachable)

lemmas row_defs = insertUser.defs user.defs insertProperty.defs property.defs insertUnit.defs
  unitRow.defs insertTenant.defs tenant.defs insertPayment.defs payment.defs
  insertNotification.defs notification.defs

lemmas seed_defs = seed_landlord_def seed_tenantUser_def seed_property_def seed_unit1_def
  seed_unit2_def seed_tenant_def seed_payment1_def seed_payment2_def seed_payment3_def
  seed_notification_def


lemma sharedStore_eq:
  "sharedStore = seedStore
     \<lparr> tenantMap := [(1, insertTenant.extend seed_tenant (tenant.fields 1 clock)),
                     (2, insertTenant.extend seed_tenant (tenant.fields 2 clock))],
       currentId := \<lparr> cur_user = 3, cur_property = 2, cur_unit = 3, cur_tenant = 3,
                     cur_payment = 4, cur_notification = 2 \<rparr> \<rparr>"
  by (simp add: sharedStore_def createTenant_def seedStore_eq Let_def getUnit_def Map_get_def
      updateUnit_def spreadUnit_isOccupied_only seed_tenant_def seed_unit1_def row_defs
      eval_nat_numeral)

lemma retiredStore_eq:
  "retiredStore = seedStore
     \<lparr> tenantMap :=
         [(1, (insertTenant.extend seed_tenant (tenant.fields 1 clock))
                \<lparr> ten_isActive := Some False \<rparr>)] \<rparr>"
  by (simp add: retiredStore_def updateTenant_def seedStore_eq Let_def Map_get_def
      deactivate_def noTenantData_def spreadTenant_def spread_def)

lemma wellFormed_sharedStore: "wellFormed sharedStore"
  unfolding sharedStore_def by (rule wellFormed_createTenant [OF wellFormed_seedStore])

lemma wellFormed_retiredStore: "wellFormed retiredStore"
  unfolding retiredStore_def by (rule wellFormed_updateTenant [OF wellFormed_seedStore])

subsection \<open>Ids are issued in order\<close>

text \<open>
  C7: the counter of every entity type starts at 1; a create call returns a record
  whose id is the current counter of its own type and advances that counter by one,
  and no other call changes a counter. So in every run from the fresh store, whatever
  updates and deletes it contains, the ids issued for one entity type are 1, 2, 3, ...
  in this order: each is strictly greater than all issued before it, and none is
  issued twice.
\<close>

theorem ids_issued_in_order:
  "counter k MemStorage = 1 \<and>
   fst (exec c s) = (case creates c of None \<Rightarrow> None | Some k' \<Rightarrow> Some (k', counter k' s)) \<and>
   counter k (snd (exec c s)) = counter k s + (if creates c = Some k then 1 else 0) \<and>
   issued k cs = [1 ..< Suc (length (issued k cs))] \<and>
   sorted_wrt (<) (issued k cs) \<and> distinct (issued k cs)"
proof -
  have c1: "counter k MemStorage = 1"
    by (cases k) (simp_all add: counter_def MemStorage_def)
  have "sorted_wrt (<) [1 ..< Suc (length (issued k cs))]"
    and "distinct [1 ..< Suc (length (issued k cs))]"
    by (simp_all del: upt_Suc)
  then have "sorted_wrt (<) (issued k cs)" and "distinct (issued k cs)"
    using issued_upt [of k cs] by simp_all
  then show ?thesis
    using c1 exec_issues [of c s] exec_counter [of k c s] issued_upt [of k cs] by blast
qed

theorem ids_issued_in_order_witness: "issued KPayment seedCalls = [1, 2, 3]"
proof -
  have "length (issued KPayment seedCalls) = 3"
    by (simp add: issued_def seedCalls_run)
  then show ?thesis
    using ids_issued_in_order [of KPayment _ _ seedCalls] by (simp add: eval_nat_numeral upt_rec)
qed

subsection \<open>Updates of absent ids\<close>

text \<open>
  C8: each of the five update methods, called with an id that its map does not hold,
  returns \<open>undefined\<close> (\<open>None\<close>) and leaves the whole store as it was.
\<close>

theorem update_absent_id:
  "(getProperty s i = None \<longrightarrow> updateProperty i pd s = (None, s)) \<and>
   (getUnit s i = None \<longrightarrow> updateUnit i ud s = (None, s)) \<and>
   (getTenant s i = None \<longrightarrow> updateTenant i td s = (None, s)) \<and>
   (getPayment s i = None \<longrightarrow> updatePayment i yd s = (None, s)) \<and>
   (getNotification s i = None \<longrightarrow> updateNotification i nd s = (None, s))"
  by (simp add: getProperty_def updateProperty_def getUnit_def updateUnit_def getTenant_def
      updateTenant_def getPayment_def updatePayment_def getNotification_def updateNotification_def)

theorem update_absent_id_witness:
  "getProperty seedStore 7 = None \<and> updateProperty 7 renameProperty seedStore = (None, seedStore) \<and>
   getUnit seedStore 7 = None \<and> updateUnit 7 (isOccupied_only True) seedStore = (None, seedStore) \<and>
   getTenant seedStore 7 = None \<and> updateTenant 7 deactivate seedStore = (None, seedStore) \<and>
   getPayment seedStore 7 = None \<and> updatePayment 7 markPaid seedStore = (None, seedStore) \<and>
   getNotification seedStore 7 = None \<and>
   updateNotification 7 markRead seedStore = (None, seedStore)"
proof -
  have absent: "getProperty seedStore 7 = None \<and> getUnit seedStore 7 = None \<and>
    getTenant seedStore 7 = None \<and> getPayment seedStore 7 = None \<and>
    getNotification seedStore 7 = None"
    by (simp add: seedStore_eq getProperty_def getUnit_def getTenant_def getPayment_def
        getNotification_def Map_get_def)
  show ?thesis
    using absent
      update_absent_id [of seedStore 7 renameProperty "isOccupied_only True" deactivate
        markPaid markRead]
    by blast
qed

subsection \<open>Creating a tenant for a unit that does not exist\<close>

text \<open>
  C9: when \<open>unitId\<close> resolves to no unit, \<open>createTenant\<close> still returns the full
  tenant record (the insert data with the next tenant id and the creation time), the
  record is stored under that id, and the unit map is untouched. The method has no
  failing branch.
\<close>

theorem createTenant_unknown_unit:
  assumes "getUnit s (ten_unitId d) = None"
  shows "fst (createTenant d now s) =
           insertTenant.extend d (tenant.fields (cur_tenant (currentId s)) now) \<and>
         getTenant (snd (createTenant d now s)) (cur_tenant (currentId s)) =
           Some (fst (createTenant d now s)) \<and>
         unitMap (snd (createTenant d now s)) = unitMap s"
  using assms
  by (simp add: createTenant_def getUnit_def getTenant_def Let_def Map_get_set
      insertTenant.defs tenant.defs)

theorem createTenant_unknown_unit_witness:
  "getUnit seedStore (ten_unitId strayTenant) = None \<and>
   fst (createTenant strayTenant clock seedStore) =
     insertTenant.extend strayTenant (tenant.fields (cur_tenant (currentId seedStore)) clock) \<and>
   getTenant (snd (createTenant strayTenant clock seedStore)) (cur_tenant (currentId seedStore)) =
     Some (fst (createTenant strayTenant clock seedStore)) \<and>
   unitMap (snd (createTenant strayTenant clock seedStore)) = unitMap seedStore"
proof -
  have absent: "getUnit seedStore (ten_unitId strayTenant) = None"
    by (simp add: seedStore_eq getUnit_def Map_get_def strayTenant_def)
  show ?thesis
    using absent createTenant_unknown_unit [OF absent, of clock] by blast
qed

subsection \<open>How the tenant operations change the lookups\<close>

lemma getUnit_updateUnit:
  "getUnit (snd (updateUnit k d s)) k' =
     (if k' = k then map_option (\<lambda>u. spreadUnit u d) (getUnit s k) else getUnit s k')"
  by (simp add: getUnit_def updateUnit_def Let_def Map_get_set split: option.splits)

lemma getTenant_updateUnit: "getTenant (snd (updateUnit k d s)) j = getTenant s j"
  by (simp add: getTenant_def updateUnit_frame)

lemma getUnit_vacate:
  "getUnit (vacate i u s) k =
     (if otherTenants s i u = [] \<and> k = unit_id u
      then map_option (\<lambda>u. u\<lparr>unit_isOccupied := Some False\<rparr>) (getUnit s k)
      else getUnit s k)"
  by (simp add: vacate_def getUnit_updateUnit spreadUnit_isOccupied_only)

lemma getTenant_vacate: "getTenant (vacate i u s) j = getTenant s j"
  by (simp add: getTenant_def vacate_frame)

text \<open>The rows of a well-keyed map, read through the lookups.\<close>

lemma tenant_rows:
  assumes "keyed ten_id n (tenantMap s)"
  shows "t \<in> set (Map_values (tenantMap s)) \<longleftrightarrow> getTenant s (ten_id t) = Some t"
  using keyed_values [OF assms] by (simp add: getTenant_def)

lemma unit_rows:
  assumes "keyed unit_id n (unitMap s)"
  shows "u \<in> set (Map_values (unitMap s)) \<longleftrightarrow> getUnit s (unit_id u) = Some u"
  using keyed_values [OF assms] by (simp add: getUnit_def)

lemma getTenant_id:
  "keyed ten_id n (tenantMap s) \<Longrightarrow> getTenant s j = Some t \<Longrightarrow> ten_id t = j"
  using keyed_get [of ten_id n "tenantMap s" j t] by (simp add: getTenant_def)

lemma getUnit_id:
  "keyed unit_id n (unitMap s) \<Longrightarrow> getUnit s k = Some u \<Longrightarrow> unit_id u = k \<and> k \<noteq> 0"
  using keyed_get [of unit_id n "unitMap s" k u] by (simp add: getUnit_def)


lemma otherTenants_empty_iff:
  assumes "keyed ten_id n (tenantMap s)"
  shows "otherTenants s i u = [] \<longleftrightarrow> \<not> otherActiveOn s i (unit_id u)"
proof -
  have rows: "\<And>t. t \<in> set (Map_values (tenantMap s)) \<longleftrightarrow> (\<exists>j. getTenant s j = Some t)"
    by (simp add: getTenant_def Map_values_iff [OF keyed_distinct [OF assms]])
  have ident: "\<And>j t. getTenant s j = Some t \<Longrightarrow> ten_id t = j"
    by (rule getTenant_id [OF assms])
  have "otherTenants s i u = [] \<longleftrightarrow>
        \<not> (\<exists>t. t \<in> set (Map_values (tenantMap s)) \<and>
              ten_id t \<noteq> i \<and> ten_unitId t = unit_id u \<and> truthy (ten_isActive t))"
    unfolding otherTenants_def filter_empty_conv by blast
  also have "\<dots> \<longleftrightarrow> \<not> otherActiveOn s i (unit_id u)"
    unfolding otherActiveOn_def rows using ident by blast
  finally show ?thesis .
qed




lemma activeOn_absent: "getTenant s i = None \<Longrightarrow> activeOn s k \<longleftrightarrow> otherActiveOn s i k"
  unfolding activeOn_def otherActiveOn_def by (metis option.distinct(1))

lemma otherActiveOn_cong:
  "(\<And>j. j \<noteq> i \<Longrightarrow> getTenant s' j = getTenant s j) \<Longrightarrow>
   otherActiveOn s' i k = otherActiveOn s i k"
  unfolding otherActiveOn_def by metis

lemma getUnit_relocate:
  assumes "keyed unit_id n (unitMap s)" "b \<noteq> ten_unitId t"
  shows "getUnit (relocate i t b s) k =
     (if k = b then map_option (\<lambda>u. u\<lparr>unit_isOccupied := Some True\<rparr>) (getUnit s b)
      else if k = ten_unitId t \<and> (\<exists>u. getUnit s k = Some u \<and> otherTenants s i u = [])
      then map_option (\<lambda>u. u\<lparr>unit_isOccupied := Some False\<rparr>) (getUnit s k)
      else getUnit s k)"
proof -
  let ?A = "ten_unitId t"
  let ?s1 = "case getUnit s ?A of None \<Rightarrow> s | Some ou \<Rightarrow> vacate i ou s"
  have ident: "\<And>k u. getUnit s k = Some u \<Longrightarrow> unit_id u = k"
    using getUnit_id [OF assms(1)] by blast
  have s1: "getUnit ?s1 k' =
      (if k' = ?A \<and> (\<exists>u. getUnit s k' = Some u \<and> otherTenants s i u = [])
       then map_option (\<lambda>u. u\<lparr>unit_isOccupied := Some False\<rparr>) (getUnit s k')
       else getUnit s k')" for k'
  proof (cases "getUnit s ?A")
    case None
    then show ?thesis by auto
  next
    case (Some u)
    then show ?thesis using ident [OF Some] by (auto simp: getUnit_vacate)
  qed
  have s3: "getUnit (relocate i t b s) k =
      (if k = b then map_option (\<lambda>u. u\<lparr>unit_isOccupied := Some True\<rparr>) (getUnit ?s1 b)
       else getUnit ?s1 k)"
  proof (cases "getUnit s b")
    case None
    then show ?thesis using assms(2) by (simp add: relocate_def s1)
  next
    case (Some nu)
    then show ?thesis
      using ident [OF Some]
      by (simp add: relocate_def getUnit_updateUnit spreadUnit_isOccupied_only)
  qed
  show ?thesis using assms(2) by (simp add: s3 s1)
qed

lemma getTenant_relocate: "getTenant (relocate i t b s) j = getTenant s j"
  by (simp add: getTenant_def relocate_frame)

lemma getTenant_deleteTenant:
  "getTenant (snd (deleteTenant i s)) j = (if j = i then None else getTenant s j)"
  by (simp add: deleteTenant_alt Let_def getTenant_def Map_get_delete vacate_frame
      split: option.splits)

lemma getUnit_deleteTenant:
  "getUnit (snd (deleteTenant i s)) k =
     (case getTenant s i of
        None \<Rightarrow> getUnit s k
      | Some t \<Rightarrow>
          (case getUnit s (ten_unitId t) of
             None \<Rightarrow> getUnit s k
           | Some u \<Rightarrow> getUnit (vacate i u s) k))"
  by (simp add: deleteTenant_alt Let_def getTenant_def getUnit_def split: option.splits)

lemma getTenant_updateTenant:
  "getTenant s i = Some t \<Longrightarrow>
   getTenant (snd (updateTenant i d s)) j =
     (if j = i then Some (spreadTenant t d) else getTenant s j)"
  by (simp add: updateTenant_alt Let_def getTenant_def Map_get_set relocate_frame)

lemma getUnit_updateTenant:
  "getTenant s i = Some t \<Longrightarrow>
   getUnit (snd (updateTenant i d s)) k =
     (if moves t d then getUnit (relocate i t (the (pten_unitId d)) s) k else getUnit s k)"
  by (simp add: updateTenant_alt Let_def getTenant_def getUnit_def)





lemma wellFormed_keyed:
  assumes "wellFormed s"
  shows "keyed unit_id (cur_unit (currentId s)) (unitMap s)"
    and "keyed ten_id (cur_tenant (currentId s)) (tenantMap s)"
  using assms by (simp_all add: wellFormed_def)

lemma activeOn_deleteTenant:
  "activeOn (snd (deleteTenant i s)) k = otherActiveOn s i k"
proof -
  have "activeOn (snd (deleteTenant i s)) k = otherActiveOn (snd (deleteTenant i s)) i k"
    by (rule activeOn_absent) (simp add: getTenant_deleteTenant)
  also have "\<dots> = otherActiveOn s i k"
    by (rule otherActiveOn_cong) (simp add: getTenant_deleteTenant)
  finally show ?thesis .
qed

subsection \<open>Deleting a tenant\<close>

text \<open>
  C2: in a well-formed store where tenant \<open>i\<close> references an existing unit U, deleting
  the tenant clears the occupied flag of U when no other active tenant row references
  U; and when U is flagged occupied and an active tenant row still references U after
  the delete, U is left as it was, so it stays flagged occupied.
\<close>

theorem deleteTenant_occupancy:
  assumes "wellFormed s" and "getTenant s i = Some t" and "getUnit s (ten_unitId t) = Some u"
  shows "(\<not> otherActiveOn s i (ten_unitId t) \<longrightarrow>
            getUnit (snd (deleteTenant i s)) (ten_unitId t) =
              Some (u\<lparr>unit_isOccupied := Some False\<rparr>)) \<and>
         (truthy (unit_isOccupied u) \<and> activeOn (snd (deleteTenant i s)) (ten_unitId t) \<longrightarrow>
            getUnit (snd (deleteTenant i s)) (ten_unitId t) = Some u)"
proof -
  have uid: "unit_id u = ten_unitId t"
    using getUnit_id [OF wellFormed_keyed(1) [OF assms(1)] assms(3)] by simp
  have empty: "otherTenants s i u = [] \<longleftrightarrow> \<not> otherActiveOn s i (ten_unitId t)"
    using otherTenants_empty_iff [OF wellFormed_keyed(2) [OF assms(1)], of i u] uid by simp
  have unit: "getUnit (snd (deleteTenant i s)) (ten_unitId t) =
      (if \<not> otherActiveOn s i (ten_unitId t) then Some (u\<lparr>unit_isOccupied := Some False\<rparr>)
       else Some u)"
    using assms(2,3) uid empty by (simp add: getUnit_deleteTenant getUnit_vacate)
  show ?thesis
    by (simp add: unit activeOn_deleteTenant)
qed

theorem deleteTenant_occupancy_witness:
  "wellFormed seedStore \<and>
   getTenant seedStore 1 = Some (insertTenant.extend seed_tenant (tenant.fields 1 clock)) \<and>
   getUnit seedStore 1 = Some (insertUnit.extend seed_unit1 (unitRow.fields 1 clock)) \<and>
   \<not> otherActiveOn seedStore 1 1 \<and>
   getUnit (snd (deleteTenant 1 seedStore)) 1 =
     Some ((insertUnit.extend seed_unit1 (unitRow.fields 1 clock))\<lparr>unit_isOccupied := Some False\<rparr>) \<and>
   wellFormed sharedStore \<and>
   getTenant sharedStore 1 = Some (insertTenant.extend seed_tenant (tenant.fields 1 clock)) \<and>
   getUnit sharedStore 1 = Some (insertUnit.extend seed_unit1 (unitRow.fields 1 clock)) \<and>
   truthy (unit_isOccupied (insertUnit.extend seed_unit1 (unitRow.fields 1 clock))) \<and>
   activeOn (snd (deleteTenant 1 sharedStore)) 1 \<and>
   getUnit (snd (deleteTenant 1 sharedStore)) 1 =
     Some (insertUnit.extend seed_unit1 (unitRow.fields 1 clock))"
proof -
  let ?T = "insertTenant.extend seed_tenant (tenant.fields 1 clock)"
  let ?U = "insertUnit.extend seed_unit1 (unitRow.fields 1 clock)"
  have unitId: "ten_unitId ?T = 1"
    by (simp add: seed_tenant_def insertTenant.defs tenant.defs)
  have t1: "getTenant seedStore 1 = Some ?T" and "getUnit seedStore 1 = Some ?U"
    by (simp_all add: seedStore_eq getTenant_def getUnit_def Map_get_def)
  then have u1: "getUnit seedStore (ten_unitId ?T) = Some ?U"
    unfolding unitId by simp
  have sole: "\<not> otherActiveOn seedStore 1 1"
    by (simp add: otherActiveOn_def seedStore_eq getTenant_def Map_get_def)
  have t2: "getTenant sharedStore 1 = Some ?T" and "getUnit sharedStore 1 = Some ?U"
    by (simp_all add: sharedStore_eq seedStore_eq getTenant_def getUnit_def Map_get_def)
  then have u2: "getUnit sharedStore (ten_unitId ?T) = Some ?U"
    unfolding unitId by simp
  have occ: "truthy (unit_isOccupied ?U)"
    by (simp add: truthy_def seed_unit1_def insertUnit.defs unitRow.defs)
  have "getTenant sharedStore 2 = Some (insertTenant.extend seed_tenant (tenant.fields 2 clock))"
    by (simp add: sharedStore_eq getTenant_def Map_get_def)
  then have "otherActiveOn sharedStore 1 1"
    unfolding otherActiveOn_def
    by (intro exI [of _ 2] exI [of _ "insertTenant.extend seed_tenant (tenant.fields 2 clock)"])
       (simp add: truthy_def seed_tenant_def insertTenant.defs tenant.defs)
  then have still: "activeOn (snd (deleteTenant 1 sharedStore)) 1"
    by (simp add: activeOn_deleteTenant)
  show ?thesis
    using wellFormed_seedStore t1 u1 sole wellFormed_sharedStore t2 u2 occ still
      deleteTenant_occupancy [OF wellFormed_seedStore t1 u1]
      deleteTenant_occupancy [OF wellFormed_sharedStore t2 u2]
    unfolding unitId by blast
qed

subsection \<open>Moving a tenant\<close>

text \<open>
  C3: in a well-formed store where tenant \<open>i\<close> references an existing unit A that no
  other active tenant row references, an update that carries the id of another
  existing unit B clears the occupied flag of A and sets the one of B, and the tenant
  row then references B. Nothing is assumed about the \<open>isActive\<close> field of the
  tenant or of the update: B is flagged occupied also when the moved tenant is
  inactive.
\<close>

theorem updateTenant_move_occupancy:
  assumes "wellFormed s" and "getTenant s i = Some t"
    and "getUnit s (ten_unitId t) = Some a" and "getUnit s b = Some ub"
    and "b \<noteq> ten_unitId t" and "pten_unitId d = Some b"
    and "\<not> otherActiveOn s i (ten_unitId t)"
  shows "getUnit (snd (updateTenant i d s)) (ten_unitId t) =
           Some (a\<lparr>unit_isOccupied := Some False\<rparr>) \<and>
         getUnit (snd (updateTenant i d s)) b = Some (ub\<lparr>unit_isOccupied := Some True\<rparr>) \<and>
         getTenant (snd (updateTenant i d s)) i = Some (spreadTenant t d) \<and>
         ten_unitId (spreadTenant t d) = b"
proof -
  note ku = wellFormed_keyed(1) [OF assms(1)] and kt = wellFormed_keyed(2) [OF assms(1)]
  have "b \<noteq> 0" using getUnit_id [OF ku assms(4)] by simp
  then have mv: "moves t d" using assms(5,6) by (simp add: moves_def)
  have uid: "unit_id a = ten_unitId t" using getUnit_id [OF ku assms(3)] by simp
  have empty: "otherTenants s i a = []"
    using otherTenants_empty_iff [OF kt, of i a] uid assms(7) by simp
  have units: "getUnit (snd (updateTenant i d s)) k = getUnit (relocate i t b s) k" for k
    using assms(2,6) mv by (simp add: getUnit_updateTenant)
  have "getUnit (relocate i t b s) (ten_unitId t) = Some (a\<lparr>unit_isOccupied := Some False\<rparr>)"
    using assms(3,5) empty by (simp add: getUnit_relocate [OF ku assms(5)])
  moreover have "getUnit (relocate i t b s) b = Some (ub\<lparr>unit_isOccupied := Some True\<rparr>)"
    using assms(4) by (simp add: getUnit_relocate [OF ku assms(5)])
  moreover have "getTenant (snd (updateTenant i d s)) i = Some (spreadTenant t d)"
    using assms(2) by (simp add: getTenant_updateTenant)
  moreover have "ten_unitId (spreadTenant t d) = b"
    using assms(6) by (simp add: spreadTenant_def spread_def)
  ultimately show ?thesis by (simp add: units)
qed

theorem updateTenant_move_occupancy_witness:
  "wellFormed retiredStore \<and>
   getTenant retiredStore 1 =
     Some ((insertTenant.extend seed_tenant (tenant.fields 1 clock))\<lparr>ten_isActive := Some False\<rparr>) \<and>
   getUnit retiredStore 1 = Some (insertUnit.extend seed_unit1 (unitRow.fields 1 clock)) \<and>
   getUnit retiredStore 2 = Some (insertUnit.extend seed_unit2 (unitRow.fields 2 clock)) \<and>
   pten_unitId (moveTo 2) = Some 2 \<and> \<not> otherActiveOn retiredStore 1 1 \<and>
   getUnit (snd (updateTenant 1 (moveTo 2) retiredStore)) 1 =
     Some ((insertUnit.extend seed_unit1 (unitRow.fields 1 clock))\<lparr>unit_isOccupied := Some False\<rparr>) \<and>
   getUnit (snd (updateTenant 1 (moveTo 2) retiredStore)) 2 =
     Some ((insertUnit.extend seed_unit2 (unitRow.fields 2 clock))\<lparr>unit_isOccupied := Some True\<rparr>) \<and>
   map_option ten_isActive (getTenant (snd (updateTenant 1 (moveTo 2) retiredStore)) 1) =
     Some (Some False)"
proof -
  let ?T = "(insertTenant.extend seed_tenant (tenant.fields 1 clock))\<lparr>ten_isActive := Some False\<rparr>"
  let ?A = "insertUnit.extend seed_unit1 (unitRow.fields 1 clock)"
  let ?B = "insertUnit.extend seed_unit2 (unitRow.fields 2 clock)"
  have unitId: "ten_unitId ?T = 1"
    by (simp add: seed_tenant_def insertTenant.defs tenant.defs)
  have t: "getTenant retiredStore 1 = Some ?T"
    and "getUnit retiredStore 1 = Some ?A"
    and b: "getUnit retiredStore 2 = Some ?B"
    by (simp_all add: retiredStore_eq seedStore_eq getTenant_def getUnit_def Map_get_def)
  then have a: "getUnit retiredStore (ten_unitId ?T) = Some ?A"
    unfolding unitId by simp
  have ne: "2 \<noteq> ten_unitId ?T" unfolding unitId by simp
  have d: "pten_unitId (moveTo 2) = Some 2" by (simp add: moveTo_def noTenantData_def)
  have "\<not> otherActiveOn retiredStore 1 1"
    by (simp add: otherActiveOn_def retiredStore_eq seedStore_eq getTenant_def Map_get_def)
  then have sole: "\<not> otherActiveOn retiredStore 1 (ten_unitId ?T)"
    unfolding unitId .
  have inactive: "ten_isActive (spreadTenant ?T (moveTo 2)) = Some False"
    by (simp add: spreadTenant_def spread_def moveTo_def noTenantData_def)
  show ?thesis
    using wellFormed_retiredStore t a b d sole inactive
      updateTenant_move_occupancy [OF wellFormed_retiredStore t a b ne d sole]
    unfolding unitId by simp
qed

subsection \<open>The occupancy invariant\<close>








text \<open>
  Whether the flag of an existing unit is right after each tenant operation, in terms of
  the store before it.
\<close>

lemma flagRight_existing:
  "getUnit s k = Some u \<Longrightarrow> flagRight s k \<longleftrightarrow> truthy (unit_isOccupied u) = activeOn s k"
  by (simp add: flagRight_def)










text \<open>The stores with a retired second tenant, evaluated.\<close>

lemma pairedStore_eq:
  "pairedStore = seedStore
     \<lparr> tenantMap := [(1, insertTenant.extend seed_tenant (tenant.fields 1 clock)),
                     (2, (insertTenant.extend seed_tenant (tenant.fields 2 clock))
                           \<lparr> ten_isActive := Some False \<rparr>)],
       currentId := \<lparr> cur_user = 3, cur_property = 2, cur_unit = 3, cur_tenant = 3,
                     cur_payment = 4, cur_notification = 2 \<rparr> \<rparr>"
  by (simp add: pairedStore_def updateTenant_def sharedStore_eq seedStore_eq Let_def Map_get_def
      deactivate_def noTenantData_def spreadTenant_def spread_def)



lemma occupancyInvariant_pairedStore: "occupancyInvariant pairedStore"
  by (simp add: occupancyInvariant_def hasActiveTenant_def Map_values_def pairedStore_eq
      seedStore_eq truthy_def row_defs seed_defs)



subsection \<open>Landlord-scoped queries\<close>

lemma mapThrowing_Inr:
  "(\<And>x. x \<in> set xs \<Longrightarrow> \<exists>y. f x = Inr y) \<Longrightarrow> mapThrowing f xs = Inr (map (\<lambda>x. projr (f x)) xs)"
proof (induction xs)
  case Nil
  then show ?case by simp
next
  case (Cons x xs)
  then obtain y where "f x = Inr y" by auto
  moreover have "mapThrowing f xs = Inr (map (\<lambda>x. projr (f x)) xs)"
    using Cons by simp
  ultimately show ?case by simp
qed

lemma property_rows:
  assumes "keyed prop_id n (propertyMap s)"
  shows "k \<in> set (map prop_id (getPropertiesByLandlord s landlordId)) \<longleftrightarrow>
         (\<exists>p. getProperty s k = Some p \<and> prop_landlordId p = landlordId)"
proof -
  have rows: "\<And>p. p \<in> set (Map_values (propertyMap s)) \<longleftrightarrow> (\<exists>j. getProperty s j = Some p)"
    by (simp add: getProperty_def Map_values_iff [OF keyed_distinct [OF assms]])
  have ident: "\<And>j p. getProperty s j = Some p \<Longrightarrow> prop_id p = j"
    using keyed_get [OF assms] by (simp add: getProperty_def)
  have "k \<in> set (map prop_id (getPropertiesByLandlord s landlordId)) \<longleftrightarrow>
        (\<exists>p. p \<in> set (Map_values (propertyMap s)) \<and> prop_landlordId p = landlordId \<and> prop_id p = k)"
    by (auto simp: getPropertiesByLandlord_def)
  also have "\<dots> \<longleftrightarrow> (\<exists>p. getProperty s k = Some p \<and> prop_landlordId p = landlordId)"
    unfolding rows using ident by blast
  finally show ?thesis .
qed

lemma landlord_unit_ids:
  assumes "keyed prop_id n (propertyMap s)" "keyed unit_id n' (unitMap s)"
  shows "k \<in> set (map unit_id
            (filter (\<lambda>unit. unit_propertyId unit \<in>
                        set (map prop_id (getPropertiesByLandlord s landlordId)))
               (Map_values (unitMap s)))) \<longleftrightarrow>
         (\<exists>u p. getUnit s k = Some u \<and> getProperty s (unit_propertyId u) = Some p \<and>
                prop_landlordId p = landlordId)"
proof -
  have rows: "\<And>u. u \<in> set (Map_values (unitMap s)) \<longleftrightarrow> (\<exists>j. getUnit s j = Some u)"
    by (simp add: getUnit_def Map_values_iff [OF keyed_distinct [OF assms(2)]])
  have ident: "\<And>j u. getUnit s j = Some u \<Longrightarrow> unit_id u = j"
    using getUnit_id [OF assms(2)] by blast
  have "k \<in> set (map unit_id
            (filter (\<lambda>unit. unit_propertyId unit \<in>
                        set (map prop_id (getPropertiesByLandlord s landlordId)))
               (Map_values (unitMap s)))) \<longleftrightarrow>
        (\<exists>u. u \<in> set (Map_values (unitMap s)) \<and> unit_id u = k \<and>
             (\<exists>p. getProperty s (unit_propertyId u) = Some p \<and> prop_landlordId p = landlordId))"
    unfolding property_rows [OF assms(1), symmetric] by auto
  also have "\<dots> \<longleftrightarrow> (\<exists>u p. getUnit s k = Some u \<and> getProperty s (unit_propertyId u) = Some p \<and>
                prop_landlordId p = landlordId)"
    unfolding rows using ident by blast
  finally show ?thesis .
qed

lemma landlordTenants_eq:
  assumes "wellFormed s"
  shows "landlordTenants s landlordId = filter (belongsTo s landlordId) (Map_values (tenantMap s))"
proof -
  have kp: "keyed prop_id (cur_property (currentId s)) (propertyMap s)"
    using assms by (simp add: wellFormed_def)
  have "(ten_unitId t \<in> set (map unit_id
            (filter (\<lambda>unit. unit_propertyId unit \<in>
                        set (map prop_id (getPropertiesByLandlord s landlordId)))
               (Map_values (unitMap s))))) = belongsTo s landlordId t" for t
    unfolding landlord_unit_ids [OF kp wellFormed_keyed(1) [OF assms]] belongsTo_def
    by (auto split: option.splits)
  then show ?thesis
    by (simp add: landlordTenants_def Let_def)
qed

lemma enrichTenant_Inr:
  "belongsTo s landlordId t \<Longrightarrow> \<exists>v. enrichTenant s t = Inr v"
  by (auto simp: belongsTo_def enrichTenant_def getUnit_def Let_def split: option.splits)

lemma enrichTenant_truncate:
  "enrichTenant s t = Inr v \<Longrightarrow> tenant.truncate v = t"
  by (auto simp: enrichTenant_def Let_def tenant.defs insertTenant.defs split: option.splits)

lemma getTenantsByLandlord_Inr:
  assumes "wellFormed s"
  shows "\<exists>vs. getTenantsByLandlord s landlordId = Inr vs \<and>
              map tenant.truncate vs = filter (belongsTo s landlordId) (Map_values (tenantMap s))"
proof -
  let ?ts = "filter (belongsTo s landlordId) (Map_values (tenantMap s))"
  have ok: "\<And>t. t \<in> set ?ts \<Longrightarrow> \<exists>v. enrichTenant s t = Inr v"
    using enrichTenant_Inr by auto
  have res: "getTenantsByLandlord s landlordId = Inr (map (\<lambda>t. projr (enrichTenant s t)) ?ts)"
    unfolding getTenantsByLandlord_def landlordTenants_eq [OF assms]
    by (rule mapThrowing_Inr [OF ok])
  have trunc: "tenant.truncate (projr (enrichTenant s t)) = t" if "t \<in> set ?ts" for t
    using ok [OF that] enrichTenant_truncate by fastforce
  have "map tenant.truncate (map (\<lambda>t. projr (enrichTenant s t)) ?ts) =
        map (\<lambda>t. tenant.truncate (projr (enrichTenant s t))) ?ts"
    by (simp add: comp_def)
  also have "\<dots> = ?ts"
    by (rule map_idI) (rule trunc)
  finally show ?thesis using res by blast
qed


lemma truncate_ten_id: "ten_id (tenant.truncate v) = ten_id v"
  by (simp add: tenant.defs)

lemma getPaymentsByLandlord_Inr:
  assumes "getTenantsByLandlord s landlordId = Inr vs"
  shows "getPaymentsByLandlord s landlordId =
     Inr (map (\<lambda>payment.
                 payment.extend payment
                   (paymentWithTenant.fields (find (\<lambda>t. ten_id t = pay_tenantId payment) vs)))
            (filter (\<lambda>payment. pay_tenantId payment \<in> set (map ten_id vs))
               (Map_values (paymentMap s))))"
  by (simp add: getPaymentsByLandlord_def assms Let_def)

text \<open>
  C4: on a well-formed store \<open>getPaymentsByLandlord\<close> returns normally, and every
  payment it returns is a stored payment whose \<open>tenantId\<close> resolves to a tenant
  whose \<open>unitId\<close> resolves to a unit whose \<open>propertyId\<close> resolves to a property
  of the queried landlord. As each lookup has one result, a payment of a tenant of
  another landlord's property is never returned.
\<close>

theorem getPaymentsByLandlord_scoped:
  assumes "wellFormed s"
  shows "\<exists>ps. getPaymentsByLandlord s landlordId = Inr ps \<and>
           (\<forall>p \<in> set ps.
              payment.truncate p \<in> set (Map_values (paymentMap s)) \<and>
              (\<exists>t u pr. getTenant s (pay_tenantId p) = Some t \<and>
                        getUnit s (ten_unitId t) = Some u \<and>
                        getProperty s (unit_propertyId u) = Some pr \<and>
                        prop_landlordId pr = landlordId))"
proof -
  obtain vs where vs: "getTenantsByLandlord s landlordId = Inr vs"
    and rows: "map tenant.truncate vs = filter (belongsTo s landlordId) (Map_values (tenantMap s))"
    using getTenantsByLandlord_Inr [OF assms] by blast
  have "map ten_id vs = map ten_id (map tenant.truncate vs)"
    by (simp add: truncate_ten_id)
  then have ids: "set (map ten_id vs) =
      ten_id ` {t \<in> set (Map_values (tenantMap s)). belongsTo s landlordId t}"
    unfolding rows by simp
  let ?ps = "map (\<lambda>payment.
                 payment.extend payment
                   (paymentWithTenant.fields (find (\<lambda>t. ten_id t = pay_tenantId payment) vs)))
            (filter (\<lambda>payment. pay_tenantId payment \<in> set (map ten_id vs))
               (Map_values (paymentMap s)))"
  have "payment.truncate p \<in> set (Map_values (paymentMap s)) \<and>
        (\<exists>t u pr. getTenant s (pay_tenantId p) = Some t \<and>
                  getUnit s (ten_unitId t) = Some u \<and>
                  getProperty s (unit_propertyId u) = Some pr \<and>
                  prop_landlordId pr = landlordId)" if "p \<in> set ?ps" for p
  proof -
    from that obtain p0 where p0: "p0 \<in> set (Map_values (paymentMap s))"
      and tid: "pay_tenantId p0 \<in> set (map ten_id vs)"
      and p: "p = payment.extend p0
                (paymentWithTenant.fields (find (\<lambda>t. ten_id t = pay_tenantId p0) vs))"
      by auto
    have trunc: "payment.truncate p = p0" and same: "pay_tenantId p = pay_tenantId p0"
      unfolding p by (simp_all add: payment.defs insertPayment.defs)
    from tid obtain t where t: "t \<in> set (Map_values (tenantMap s))"
      and bel: "belongsTo s landlordId t" and "ten_id t = pay_tenantId p0"
      unfolding ids by auto
    then have "getTenant s (pay_tenantId p) = Some t"
      using tenant_rows [OF wellFormed_keyed(2) [OF assms], of t] same by simp
    moreover have "\<exists>u pr. getUnit s (ten_unitId t) = Some u \<and>
        getProperty s (unit_propertyId u) = Some pr \<and> prop_landlordId pr = landlordId"
      using bel by (auto simp: belongsTo_def split: option.splits)
    ultimately show ?thesis using p0 trunc by blast
  qed
  then show ?thesis
    using getPaymentsByLandlord_Inr [OF vs] by blast
qed

theorem getPaymentsByLandlord_scoped_witness:
  "wellFormed seedStore \<and>
   (\<exists>ps. getPaymentsByLandlord seedStore 1 = Inr ps \<and> map pay_id ps = [1, 2, 3] \<and>
      (\<forall>p \<in> set ps.
         payment.truncate p \<in> set (Map_values (paymentMap seedStore)) \<and>
         (\<exists>t u pr. getTenant seedStore (pay_tenantId p) = Some t \<and>
                   getUnit seedStore (ten_unitId t) = Some u \<and>
                   getProperty seedStore (unit_propertyId u) = Some pr \<and>
                   prop_landlordId pr = 1)))"
proof -
  have "map pay_id (projr (getPaymentsByLandlord seedStore 1)) = [1, 2, 3]"
    by (simp add: getPaymentsByLandlord_def getTenantsByLandlord_def landlordTenants_def
        getPropertiesByLandlord_def enrichTenant_def Map_values_def Map_get_def Let_def
        seedStore_eq row_defs seed_defs tenantWithRefs.defs unitWithProperty.defs
        paymentWithTenant.defs)
  then show ?thesis
    using wellFormed_seedStore getPaymentsByLandlord_scoped [OF wellFormed_seedStore, of 1]
    by auto
qed

lemma getDashboardData_tenantsCount:
  assumes "getTenantsByLandlord s landlordId = Inr vs"
  shows "\<exists>d. getDashboardData Number toLocaleString now today s landlordId = Inr d \<and>
             tenantsCount d = length vs"
  by (simp add: getDashboardData_def Let_def assms getPaymentsByLandlord_Inr [OF assms])

text \<open>
  C10: on a well-formed store \<open>getTenantsByLandlord\<close> returns, in the order of the
  tenant map, exactly the tenant rows that belong to the landlord, whatever their
  \<open>isActive\<close> field; so \<open>tenantsCount\<close> of the dashboard is the number of the
  landlord's active tenants plus the number of the inactive ones.
\<close>

theorem getTenantsByLandlord_ignores_isActive:
  assumes "wellFormed s"
  shows "\<exists>vs d. getTenantsByLandlord s landlordId = Inr vs \<and>
           map tenant.truncate vs = filter (belongsTo s landlordId) (Map_values (tenantMap s)) \<and>
           getDashboardData Number toLocaleString now today s landlordId = Inr d \<and>
           tenantsCount d =
             length (filter (\<lambda>t. belongsTo s landlordId t \<and> truthy (ten_isActive t))
                       (Map_values (tenantMap s))) +
             length (filter (\<lambda>t. belongsTo s landlordId t \<and> \<not> truthy (ten_isActive t))
                       (Map_values (tenantMap s)))"
proof -
  let ?rows = "Map_values (tenantMap s)"
  obtain vs where vs: "getTenantsByLandlord s landlordId = Inr vs"
    and rows: "map tenant.truncate vs = filter (belongsTo s landlordId) ?rows"
    using getTenantsByLandlord_Inr [OF assms] by blast
  obtain d where d: "getDashboardData Number toLocaleString now today s landlordId = Inr d"
    and count: "tenantsCount d = length vs"
    using getDashboardData_tenantsCount [OF vs] by blast
  have "length vs = length (filter (belongsTo s landlordId) ?rows)"
    using rows by (metis length_map)
  also have "\<dots> =
      length (filter (\<lambda>t. truthy (ten_isActive t)) (filter (belongsTo s landlordId) ?rows)) +
      length (filter (\<lambda>t. \<not> truthy (ten_isActive t)) (filter (belongsTo s landlordId) ?rows))"
    by (rule sum_length_filter_compl [symmetric])
  also have "\<dots> =
      length (filter (\<lambda>t. belongsTo s landlordId t \<and> truthy (ten_isActive t)) ?rows) +
      length (filter (\<lambda>t. belongsTo s landlordId t \<and> \<not> truthy (ten_isActive t)) ?rows)"
    by (simp add: conj_commute)
  finally show ?thesis using vs rows d count by auto
qed

theorem getTenantsByLandlord_ignores_isActive_witness:
  "wellFormed retiredStore \<and>
   (\<exists>vs d. getTenantsByLandlord retiredStore 1 = Inr vs \<and>
      map tenant.truncate vs = filter (belongsTo retiredStore 1) (Map_values (tenantMap retiredStore)) \<and>
      getDashboardData decimal englishMonth clock clock retiredStore 1 = Inr d \<and>
      length (filter (\<lambda>t. belongsTo retiredStore 1 t \<and> truthy (ten_isActive t))
                (Map_values (tenantMap retiredStore))) = 0 \<and>
      length (filter (\<lambda>t. belongsTo retiredStore 1 t \<and> \<not> truthy (ten_isActive t))
                (Map_values (tenantMap retiredStore))) = 1 \<and>
      tenantsCount d = 1)"
proof -
  have active: "length (filter (\<lambda>t. belongsTo retiredStore 1 t \<and> truthy (ten_isActive t))
                (Map_values (tenantMap retiredStore))) = 0"
    and inactive: "length (filter (\<lambda>t. belongsTo retiredStore 1 t \<and> \<not> truthy (ten_isActive t))
                (Map_values (tenantMap retiredStore))) = 1"
    by (simp_all add: belongsTo_def getUnit_def getProperty_def Map_get_def Map_values_def
        truthy_def retiredStore_eq seedStore_eq row_defs seed_defs)
  show ?thesis
    using wellFormed_retiredStore active inactive
      getTenantsByLandlord_ignores_isActive [OF wellFormed_retiredStore,
        of 1 decimal englishMonth clock clock]
    by auto
qed

subsection \<open>The dashboard: six months of income\<close>

lemma monthlyIncomeLoop_unrolled:
  "monthlyIncomeLoop Number toLocaleString today payments 5 [] =
     map (\<lambda>k. monthlyIncomeEntry Number toLocaleString today payments (5 - int k)) [0..<6]"
  by (simp add: monthlyIncomeLoop.simps upt_rec)

lemma Date_year_month_calendar:
  "\<not> (0 \<le> getFullYear today \<and> getFullYear today \<le> 99) \<Longrightarrow>
   Date_year_month (getFullYear today) (getMonth today - i) = calendarMonth (monthNumber today - i)"
proof -
  have "(12 * y + x) div 12 = y + x div 12" and "(12 * y + x) mod 12 = x mod 12" for x y :: int
    by simp_all
  from this [of "getFullYear today" "getMonth today - i"]
  have "(12 * getFullYear today + getMonth today - i) div 12 = getFullYear today + (getMonth today - i) div 12"
    and "(12 * getFullYear today + getMonth today - i) mod 12 = (getMonth today - i) mod 12"
    by (simp_all add: algebra_simps)
  then show "\<not> (0 \<le> getFullYear today \<and> getFullYear today \<le> 99) \<Longrightarrow>
   Date_year_month (getFullYear today) (getMonth today - i) = calendarMonth (monthNumber today - i)"
    by (auto simp: Date_year_month_def calendarMonth_def monthNumber_def Let_def)
qed

lemma monthPayments_paidIn: "monthPayments m ps = filter (paidIn m) ps"
  unfolding monthPayments_def paidIn_def
  by (rule filter_cong) (auto split: option.splits)

lemma getDashboardData_Inr:
  assumes "getTenantsByLandlord s landlordId = Inr vs"
    and "getPaymentsByLandlord s landlordId = Inr ps"
  shows "getDashboardData Number toLocaleString now today s landlordId =
     Inr \<lparr> propertiesCount = length (getPropertiesByLandlord s landlordId),
           tenantsCount = length vs,
           upcomingPaymentsTotal = sumAmounts Number (upcomingPayments now ps),
           overduePaymentsTotal = sumAmounts Number (overduePayments now ps),
           properties =
             map (\<lambda>property.
                    property.extend property
                      (propertyWithUnits.fields (getUnitsByProperty s (prop_id property))))
               (getPropertiesByLandlord s landlordId),
           tenantActivity = take 10 (sort_key (\<lambda>p. - getTime (pay_createdAt p)) ps),
           monthlyIncome =
             monthlyIncomeLoop Number toLocaleString today
               (sort_key (\<lambda>p. - getTime (pay_createdAt p)) ps) 5 [] \<rparr>"
  by (simp add: getDashboardData_def Let_def assms)

lemma insort_key_map:
  "insort_key f (g x) (map g xs) = map g (insort_key (\<lambda>y. f (g y)) x xs)"
  by (induction xs) simp_all

lemma sort_key_map: "sort_key f (map g xs) = map g (sort_key (\<lambda>y. f (g y)) xs)"
  by (induction xs) (simp_all add: insort_key_map)

lemma getPaymentsByLandlord_rows:
  assumes "wellFormed s"
  shows "\<exists>vs. getTenantsByLandlord s landlordId = Inr vs \<and>
           getPaymentsByLandlord s landlordId =
             Inr (map (\<lambda>payment.
                         payment.extend payment
                           (paymentWithTenant.fields
                              (find (\<lambda>t. ten_id t = pay_tenantId payment) vs)))
                    (landlordPayments s landlordId))"
proof -
  obtain vs where vs: "getTenantsByLandlord s landlordId = Inr vs"
    and rows: "map tenant.truncate vs = filter (belongsTo s landlordId) (Map_values (tenantMap s))"
    using getTenantsByLandlord_Inr [OF assms] by blast
  note kt = wellFormed_keyed(2) [OF assms]
  have "map ten_id vs = map ten_id (map tenant.truncate vs)"
    by (simp add: truncate_ten_id)
  then have ids: "set (map ten_id vs) =
      ten_id ` {t \<in> set (Map_values (tenantMap s)). belongsTo s landlordId t}"
    unfolding rows by simp
  have "(pay_tenantId p \<in> set (map ten_id vs)) =
        (case getTenant s (pay_tenantId p) of None \<Rightarrow> False | Some t \<Rightarrow> belongsTo s landlordId t)"
    for p :: payment
  proof (cases "getTenant s (pay_tenantId p)")
    case None
    have "pay_tenantId p \<notin> set (map ten_id vs)"
    proof
      assume "pay_tenantId p \<in> set (map ten_id vs)"
      then obtain t where "t \<in> set (Map_values (tenantMap s))" and "ten_id t = pay_tenantId p"
        unfolding ids by auto
      then show False using tenant_rows [OF kt, of t] None by simp
    qed
    then show ?thesis using None by simp
  next
    case (Some t)
    have id: "ten_id t = pay_tenantId p" by (rule getTenant_id [OF kt Some])
    have row: "t \<in> set (Map_values (tenantMap s))"
      using tenant_rows [OF kt, of t] Some id by simp
    show ?thesis
    proof (cases "belongsTo s landlordId t")
      case True
      then have "pay_tenantId p \<in> set (map ten_id vs)"
        unfolding ids using row id by force
      then show ?thesis using Some True by simp
    next
      case False
      have "pay_tenantId p \<notin> set (map ten_id vs)"
      proof
        assume "pay_tenantId p \<in> set (map ten_id vs)"
        then obtain t' where t': "t' \<in> set (Map_values (tenantMap s))"
          and bel: "belongsTo s landlordId t'" and "ten_id t' = pay_tenantId p"
          unfolding ids by auto
        then have "getTenant s (pay_tenantId p) = Some t'"
          using tenant_rows [OF kt, of t'] by simp
        then show False using Some False bel by simp
      qed
      then show ?thesis using Some False by simp
    qed
  qed
  then have "filter (\<lambda>payment. pay_tenantId payment \<in> set (map ten_id vs))
               (Map_values (paymentMap s)) = landlordPayments s landlordId"
    unfolding landlordPayments_def by simp
  then show ?thesis
    using vs getPaymentsByLandlord_Inr [OF vs] by simp
qed

lemma monthlyIncomeEntry_of_views:
  fixes Number :: "string \<Rightarrow> 'n::{plus,zero}"
  assumes "\<And>p. pay_status (view p) = pay_status p"
    and "\<And>p. pay_paymentDate (view p) = pay_paymentDate p"
    and "\<And>p. pay_amount (view p) = pay_amount p"
    and "\<And>p. pay_createdAt (view p) = pay_createdAt p"
    and "\<not> (0 \<le> getFullYear today \<and> getFullYear today \<le> 99)"
  shows "month (monthlyIncomeEntry Number toLocaleString today
                  (sort_key (\<lambda>p. - getTime (pay_createdAt p)) (map view rows)) i) =
           toLocaleString (calendarMonth (monthNumber today - i)) @ [CHR '' '', CHR 0x27] @
           drop 2 (toString (fst (calendarMonth (monthNumber today - i))))"
    and "amount (monthlyIncomeEntry Number toLocaleString today
                   (sort_key (\<lambda>p. - getTime (pay_createdAt p)) (map view rows)) i) =
           foldl (\<lambda>sum p. sum + Number (pay_amount p)) 0
             (filter (paidIn (calendarMonth (monthNumber today - i)))
                (sort_key (\<lambda>p. - getTime (pay_createdAt p)) rows))"
proof -
  have paid: "paidIn m (view p) = paidIn m p" for m p
    by (simp add: paidIn_def assms(1,2))
  show "month (monthlyIncomeEntry Number toLocaleString today
                  (sort_key (\<lambda>p. - getTime (pay_createdAt p)) (map view rows)) i) =
           toLocaleString (calendarMonth (monthNumber today - i)) @ [CHR '' '', CHR 0x27] @
           drop 2 (toString (fst (calendarMonth (monthNumber today - i))))"
    by (simp add: monthlyIncomeEntry_def Let_def Date_year_month_calendar [OF assms(5)])
  show "amount (monthlyIncomeEntry Number toLocaleString today
                   (sort_key (\<lambda>p. - getTime (pay_createdAt p)) (map view rows)) i) =
           foldl (\<lambda>sum p. sum + Number (pay_amount p)) 0
             (filter (paidIn (calendarMonth (monthNumber today - i)))
                (sort_key (\<lambda>p. - getTime (pay_createdAt p)) rows))"
    by (simp add: monthlyIncomeEntry_def Let_def Date_year_month_calendar [OF assms(5)]
        monthPayments_paidIn sumAmounts_def sort_key_map assms(3,4) filter_map comp_def paid
        foldl_map)
qed

lemmas view_defs = tenantWithRefs.defs unitWithProperty.defs paymentWithTenant.defs
  propertyWithUnits.defs

lemmas query_defs = getPaymentsByLandlord_def getTenantsByLandlord_def landlordTenants_def
  getPropertiesByLandlord_def getUnitsByProperty_def enrichTenant_def Map_values_def Map_get_def

lemma seed_monthlyIncome:
  "monthlyIncome (projr (getDashboardData decimal englishMonth clock clock seedStore 1)) =
     [\<lparr> month = ''June '' @ CHR 0x27 # ''26'', amount = 0 \<rparr>,
      \<lparr> month = ''July '' @ CHR 0x27 # ''26'', amount = 0 \<rparr>,
      \<lparr> month = ''August '' @ CHR 0x27 # ''26'', amount = 0 \<rparr>,
      \<lparr> month = ''September '' @ CHR 0x27 # ''26'', amount = 1200 \<rparr>,
      \<lparr> month = ''October '' @ CHR 0x27 # ''26'', amount = 1200 \<rparr>,
      \<lparr> month = ''November '' @ CHR 0x27 # ''26'', amount = 0 \<rparr>]"
  by (simp add: getDashboardData_def query_defs Let_def seedStore_eq row_defs seed_defs view_defs
      monthlyIncomeLoop.simps monthlyIncomeEntry_def monthPayments_def sumAmounts_def
      Date_year_month_def clock_def toString_def digits.simps englishMonth_def decimal_def
      upcomingPayments_def overduePayments_def)

lemma seed_landlordPayments:
  "landlordPayments seedStore 1 =
     [insertPayment.extend seed_payment1 (payment.fields 1 clock),
      insertPayment.extend seed_payment2 (payment.fields 2 clock),
      insertPayment.extend seed_payment3 (payment.fields 3 clock)]"
  by (simp add: landlordPayments_def belongsTo_def getTenant_def getUnit_def getProperty_def
      Map_get_def Map_values_def seedStore_eq row_defs seed_defs)

text \<open>
  The year part of a label: for a four-digit year, \<open>toString().slice(2)\<close> is its
  last two digits.
\<close>

lemma yearShort_two_digits:
  assumes "1000 \<le> y" and "y \<le> 9999"
  shows "drop 2 (toString y) =
           [''0123456789'' ! nat (y div 10 mod 10), ''0123456789'' ! nat (y mod 10)]"
proof -
  define n where "n = nat y"
  have n: "1000 \<le> n" "n \<le> 9999" using assms by (simp_all add: n_def)
  have small: "n div 1000 < 10" and big: "\<not> n div 100 < 10" "\<not> n div 10 < 10" "\<not> n < 10"
    using n by simp_all
  have d3: "digits (n div 1000) = [''0123456789'' ! (n div 1000)]"
    using small by (simp add: digits.simps [of "n div 1000"])
  have d2: "digits (n div 100) = digits (n div 1000) @ [''0123456789'' ! (n div 100 mod 10)]"
    using big(1) by (simp add: digits.simps [of "n div 100"] div_mult2_eq [symmetric])
  have d1: "digits (n div 10) = digits (n div 100) @ [''0123456789'' ! (n div 10 mod 10)]"
    using big(2) by (simp add: digits.simps [of "n div 10"] div_mult2_eq [symmetric])
  have d0: "digits n = digits (n div 10) @ [''0123456789'' ! (n mod 10)]"
    using big(3) by (simp add: digits.simps [of n])
  have "drop 2 (digits n) = [''0123456789'' ! (n div 10 mod 10), ''0123456789'' ! (n mod 10)]"
    by (simp add: d0 d1 d2 d3)
  moreover have "nat (y div 10 mod 10) = n div 10 mod 10" and "nat (y mod 10) = n mod 10"
    using assms by (simp_all add: n_def nat_div_distrib nat_mod_distrib)
  ultimately show ?thesis
    using assms by (simp add: toString_def n_def)
qed

text \<open>
  C5: on a well-formed store, with a clock whose year is not one of 0..99 (which the
  \<open>Date\<close> constructor would read as 1900..1999), the dashboard is returned and its
  \<open>monthlyIncome\<close> has exactly six entries; entry \<open>k\<close> (from 0) is for the calendar
  month \<open>5 - k\<close> months before the current one, so the entries run from the oldest
  month to the current month. Its label is the month name, a space, an apostrophe
  and the year's decimal digits from the third on. Its amount is what the loop of the
  method computes from the payments of the landlord in the store: starting from 0, the
  amounts of the payments paid in that month are added one after the other, from the
  most recently created payment to the oldest (payments created at the same instant in
  the order of the payment map). Only \<open>+\<close> and \<open>0\<close> of the number type are used, and
  nothing is assumed of them. When the landlord has no payment paid in that month the
  amount is 0.
\<close>

theorem monthlyIncome_six_months:
  fixes Number :: "string \<Rightarrow> 'n::{plus,zero}"
  assumes "wellFormed s" and "\<not> (0 \<le> getFullYear today \<and> getFullYear today \<le> 99)"
  shows "\<exists>d. getDashboardData Number toLocaleString now today s landlordId = Inr d \<and>
           length (monthlyIncome d) = 6 \<and>
           (\<forall>k < 6.
              month (monthlyIncome d ! k) =
                toLocaleString (calendarMonth (monthNumber today - 5 + int k)) @
                [CHR '' '', CHR 0x27] @
                drop 2 (toString (fst (calendarMonth (monthNumber today - 5 + int k)))) \<and>
              amount (monthlyIncome d ! k) =
                foldl (\<lambda>sum p. sum + Number (pay_amount p)) 0
                  (filter (paidIn (calendarMonth (monthNumber today - 5 + int k)))
                     (sort_key (\<lambda>p. - getTime (pay_createdAt p))
                        (landlordPayments s landlordId))) \<and>
              (filter (paidIn (calendarMonth (monthNumber today - 5 + int k)))
                 (landlordPayments s landlordId) = [] \<longrightarrow>
               amount (monthlyIncome d ! k) = 0))"
proof -
  obtain vs where vs: "getTenantsByLandlord s landlordId = Inr vs"
    and ps: "getPaymentsByLandlord s landlordId =
             Inr (map (\<lambda>payment.
                         payment.extend payment
                           (paymentWithTenant.fields
                              (find (\<lambda>t. ten_id t = pay_tenantId payment) vs)))
                    (landlordPayments s landlordId))"
    using getPaymentsByLandlord_rows [OF assms(1)] by blast
  let ?view = "\<lambda>payment. payment.extend payment
      (paymentWithTenant.fields (find (\<lambda>t. ten_id t = pay_tenantId payment) vs))"
  let ?rows = "landlordPayments s landlordId"
  let ?sorted = "sort_key (\<lambda>p. - getTime (pay_createdAt p)) (map ?view ?rows)"
  let ?entry = "\<lambda>k. monthlyIncomeEntry Number toLocaleString today ?sorted (5 - int k)"
  have view: "pay_status (?view x) = pay_status x"
    "pay_paymentDate (?view x) = pay_paymentDate x"
    "pay_amount (?view x) = pay_amount x" "pay_createdAt (?view x) = pay_createdAt x" for x
    by (simp_all add: payment.defs insertPayment.defs)
  obtain d where d: "getDashboardData Number toLocaleString now today s landlordId = Inr d"
    and income: "monthlyIncome d = map ?entry [0..<6]"
    using getDashboardData_Inr [OF vs ps, of Number toLocaleString now today]
    by (simp add: monthlyIncomeLoop_unrolled)
  have nth: "monthlyIncome d ! k = ?entry k" if "k < 6" for k
    unfolding income using that by (simp del: upt_Suc)
  have c: "monthNumber today - (5 - int k) = monthNumber today - 5 + int k" for k
    by simp
  have none: "foldl (\<lambda>sum p. sum + Number (pay_amount p)) 0
                (filter P (sort_key (\<lambda>p. - getTime (pay_createdAt p)) ?rows)) = 0"
    if "filter P ?rows = []" for P
  proof -
    have "filter P (sort_key (\<lambda>p. - getTime (pay_createdAt p)) ?rows) = []"
      using that by (simp add: filter_empty_conv)
    then show ?thesis by simp
  qed
  have "month (monthlyIncome d ! k) =
          toLocaleString (calendarMonth (monthNumber today - 5 + int k)) @
          [CHR '' '', CHR 0x27] @
          drop 2 (toString (fst (calendarMonth (monthNumber today - 5 + int k)))) \<and>
        amount (monthlyIncome d ! k) =
          foldl (\<lambda>sum p. sum + Number (pay_amount p)) 0
            (filter (paidIn (calendarMonth (monthNumber today - 5 + int k)))
               (sort_key (\<lambda>p. - getTime (pay_createdAt p)) ?rows)) \<and>
        (filter (paidIn (calendarMonth (monthNumber today - 5 + int k))) ?rows = [] \<longrightarrow>
           amount (monthlyIncome d ! k) = 0)" if "k < 6" for k
    using monthlyIncomeEntry_of_views [of ?view today Number toLocaleString ?rows "5 - int k",
        OF view assms(2)]
      none [of "paidIn (calendarMonth (monthNumber today - 5 + int k))"]
    unfolding nth [OF that] c by simp
  moreover have "length (monthlyIncome d) = 6"
    unfolding income by simp
  ultimately show ?thesis using d by blast
qed

theorem monthlyIncome_six_months_witness:
  "wellFormed seedStore \<and> \<not> (0 \<le> getFullYear clock \<and> getFullYear clock \<le> 99) \<and>
   landlordPayments seedStore 1 =
     [insertPayment.extend seed_payment1 (payment.fields 1 clock),
      insertPayment.extend seed_payment2 (payment.fields 2 clock),
      insertPayment.extend seed_payment3 (payment.fields 3 clock)] \<and>
   (\<exists>d. getDashboardData decimal englishMonth clock clock seedStore 1 = Inr d \<and>
      monthlyIncome d =
        [\<lparr> month = ''June '' @ CHR 0x27 # ''26'', amount = 0 \<rparr>,
         \<lparr> month = ''July '' @ CHR 0x27 # ''26'', amount = 0 \<rparr>,
         \<lparr> month = ''August '' @ CHR 0x27 # ''26'', amount = 0 \<rparr>,
         \<lparr> month = ''September '' @ CHR 0x27 # ''26'', amount = 1200 \<rparr>,
         \<lparr> month = ''October '' @ CHR 0x27 # ''26'', amount = 1200 \<rparr>,
         \<lparr> month = ''November '' @ CHR 0x27 # ''26'', amount = 0 \<rparr>] \<and>
      length (monthlyIncome d) = 6 \<and>
      (\<forall>k < 6.
         month (monthlyIncome d ! k) =
           englishMonth (calendarMonth (monthNumber clock - 5 + int k)) @
           [CHR '' '', CHR 0x27] @
           drop 2 (toString (fst (calendarMonth (monthNumber clock - 5 + int k)))) \<and>
         amount (monthlyIncome d ! k) =
           foldl (\<lambda>sum p. sum + decimal (pay_amount p)) 0
             (filter (paidIn (calendarMonth (monthNumber clock - 5 + int k)))
                (sort_key (\<lambda>p. - getTime (pay_createdAt p)) (landlordPayments seedStore 1))) \<and>
         (filter (paidIn (calendarMonth (monthNumber clock - 5 + int k)))
            (landlordPayments seedStore 1) = [] \<longrightarrow>
          amount (monthlyIncome d ! k) = 0)))"
proof -
  have year: "\<not> (0 \<le> getFullYear clock \<and> getFullYear clock \<le> 99)"
    by (simp add: clock_def)
  obtain d where d: "getDashboardData decimal englishMonth clock clock seedStore 1 = Inr d"
    and entries: "length (monthlyIncome d) = 6 \<and>
      (\<forall>k < 6.
         month (monthlyIncome d ! k) =
           englishMonth (calendarMonth (monthNumber clock - 5 + int k)) @
           [CHR '' '', CHR 0x27] @
           drop 2 (toString (fst (calendarMonth (monthNumber clock - 5 + int k)))) \<and>
         amount (monthlyIncome d ! k) =
           foldl (\<lambda>sum p. sum + decimal (pay_amount p)) 0
             (filter (paidIn (calendarMonth (monthNumber clock - 5 + int k)))
                (sort_key (\<lambda>p. - getTime (pay_createdAt p)) (landlordPayments seedStore 1))) \<and>
         (filter (paidIn (calendarMonth (monthNumber clock - 5 + int k)))
            (landlordPayments seedStore 1) = [] \<longrightarrow>
          amount (monthlyIncome d ! k) = 0))"
    using monthlyIncome_six_months [OF wellFormed_seedStore year, of decimal englishMonth clock 1]
    by blast
  have "monthlyIncome d =
        [\<lparr> month = ''June '' @ CHR 0x27 # ''26'', amount = 0 \<rparr>,
         \<lparr> month = ''July '' @ CHR 0x27 # ''26'', amount = 0 \<rparr>,
         \<lparr> month = ''August '' @ CHR 0x27 # ''26'', amount = 0 \<rparr>,
         \<lparr> month = ''September '' @ CHR 0x27 # ''26'', amount = 1200 \<rparr>,
         \<lparr> month = ''October '' @ CHR 0x27 # ''26'', amount = 1200 \<rparr>,
         \<lparr> month = ''November '' @ CHR 0x27 # ''26'', amount = 0 \<rparr>]"
    using seed_monthlyIncome d by simp
  then show ?thesis
    using wellFormed_seedStore year seed_landlordPayments d entries by blast
qed

subsection \<open>The dashboard: a pending payment due at the aggregation instant\<close>

lemma Map_delete_filter:
  assumes "distinct (map fst m)" and "Map_get m i = Some p" and "\<not> R p"
  shows "filter R (Map_values (Map_delete i m)) = filter R (Map_values m)"
proof -
  have only: "snd e = p" if "e \<in> set m" and "fst e = i" for e
  proof -
    have "map_of m (fst e) = Some (snd e)"
      using assms(1) that(1) by (metis map_of_eq_Some_iff prod.collapse)
    then show ?thesis using assms(2) that(2) by (simp add: Map_get_def)
  qed
  have "filter R (Map_values (Map_delete i m)) =
        map snd (filter (\<lambda>e. fst e \<noteq> i \<and> R (snd e)) m)"
    by (simp add: Map_values_def Map_delete_def filter_map comp_def conj_commute)
  also have "\<dots> = map snd (filter (\<lambda>e. R (snd e)) m)"
    using only assms(3) by (intro arg_cong [where f = "map snd"] filter_cong) auto
  also have "\<dots> = filter R (Map_values m)"
    by (simp add: Map_values_def filter_map comp_def)
  finally show ?thesis .
qed

lemma totals_of_views:
  assumes "\<And>p. pay_status (view p) = pay_status p"
    and "\<And>p. pay_dueDate (view p) = pay_dueDate p"
    and "\<And>p. pay_amount (view p) = pay_amount p"
  shows "sumAmounts Number (upcomingPayments now (map view (filter Q rows))) =
           sumAmounts Number
             (filter (\<lambda>p. Q p \<and> pay_status p = ''pending'' \<and>
                          getTime (pay_dueDate p) > getTime now) rows)"
    and "sumAmounts Number (overduePayments now (map view (filter Q rows))) =
           sumAmounts Number
             (filter (\<lambda>p. Q p \<and> (pay_status p = ''overdue'' \<or>
                          (pay_status p = ''pending'' \<and>
                           getTime (pay_dueDate p) < getTime now))) rows)"
  by (simp_all add: sumAmounts_def upcomingPayments_def overduePayments_def filter_map comp_def
      assms foldl_map conj_commute)

lemma getTenantsByLandlord_deletePayment:
  "getTenantsByLandlord (snd (deletePayment i s)) landlordId = getTenantsByLandlord s landlordId"
proof -
  have "enrichTenant (snd (deletePayment i s)) = enrichTenant s"
    by (rule ext) (simp add: enrichTenant_def deletePayment_def Let_def split: option.splits)
  then show ?thesis
    by (simp add: getTenantsByLandlord_def landlordTenants_def getPropertiesByLandlord_def
        deletePayment_def)
qed

text \<open>
  C6: on a well-formed store, a pending payment whose due date equals the aggregation
  instant \<open>now\<close> is counted in neither total: the dashboard reports the same
  \<open>upcomingPaymentsTotal\<close> and the same \<open>overduePaymentsTotal\<close> as it does for the
  store without that payment. This holds for every landlord, the owner included.
\<close>

theorem pending_due_now_in_neither_total:
  assumes "wellFormed s" and "getPayment s i = Some p"
    and "pay_status p = ''pending''" and "getTime (pay_dueDate p) = getTime now"
  shows "\<exists>d d'. getDashboardData Number toLocaleString now today s landlordId = Inr d \<and>
           getDashboardData Number toLocaleString now today (snd (deletePayment i s)) landlordId =
             Inr d' \<and>
           upcomingPaymentsTotal d' = upcomingPaymentsTotal d \<and>
           overduePaymentsTotal d' = overduePaymentsTotal d"
proof -
  let ?s' = "snd (deletePayment i s)"
  obtain vs where vs: "getTenantsByLandlord s landlordId = Inr vs"
    using getTenantsByLandlord_Inr [OF assms(1)] by blast
  then have vs': "getTenantsByLandlord ?s' landlordId = Inr vs"
    by (simp add: getTenantsByLandlord_deletePayment)
  let ?view = "\<lambda>payment. payment.extend payment
      (paymentWithTenant.fields (find (\<lambda>t. ten_id t = pay_tenantId payment) vs))"
  let ?Q = "\<lambda>payment. pay_tenantId payment \<in> set (map ten_id vs)"
  let ?ps = "\<lambda>s. map ?view (filter ?Q (Map_values (paymentMap s)))"
  note ps = getPaymentsByLandlord_Inr [OF vs] and ps' = getPaymentsByLandlord_Inr [OF vs']
  have view: "pay_status (?view x) = pay_status x" "pay_dueDate (?view x) = pay_dueDate x"
    "pay_amount (?view x) = pay_amount x" for x
    by (simp_all add: payment.defs insertPayment.defs)
  have dist: "distinct (map fst (paymentMap s))"
    using assms(1) by (simp add: wellFormed_def keyed_def)
  have stored: "Map_get (paymentMap s) i = Some p"
    using assms(2) by (simp add: getPayment_def)
  have rows': "paymentMap ?s' = Map_delete i (paymentMap s)"
    by (simp add: deletePayment_def)
  have up: "sumAmounts Number (upcomingPayments now (?ps ?s')) =
            sumAmounts Number (upcomingPayments now (?ps s))"
    unfolding totals_of_views(1) [of ?view, OF view] rows'
    by (rule arg_cong [where f = "sumAmounts Number"], rule Map_delete_filter [OF dist stored])
       (simp add: assms(4))
  have over: "sumAmounts Number (overduePayments now (?ps ?s')) =
              sumAmounts Number (overduePayments now (?ps s))"
    unfolding totals_of_views(2) [of ?view, OF view] rows'
    by (rule arg_cong [where f = "sumAmounts Number"], rule Map_delete_filter [OF dist stored])
       (simp add: assms(3,4))
  show ?thesis
    using getDashboardData_Inr [OF vs ps, of Number toLocaleString now today]
      getDashboardData_Inr [OF vs' ps', of Number toLocaleString now today] up over
    by simp
qed

theorem pending_due_now_in_neither_total_witness:
  "wellFormed seedStore \<and>
   getPayment seedStore 3 = Some (insertPayment.extend seed_payment3 (payment.fields 3 clock)) \<and>
   pay_status (insertPayment.extend seed_payment3 (payment.fields 3 clock)) = ''pending'' \<and>
   getTime (pay_dueDate (insertPayment.extend seed_payment3 (payment.fields 3 clock))) =
     getTime dueInstant \<and>
   (\<exists>d d'. getDashboardData decimal englishMonth dueInstant clock seedStore 1 = Inr d \<and>
      getDashboardData decimal englishMonth dueInstant clock (snd (deletePayment 3 seedStore)) 1 =
        Inr d' \<and>
      upcomingPaymentsTotal d' = upcomingPaymentsTotal d \<and>
      overduePaymentsTotal d' = overduePaymentsTotal d \<and>
      upcomingPaymentsTotal d = 0 \<and> overduePaymentsTotal d = 0)"
proof -
  let ?P = "insertPayment.extend seed_payment3 (payment.fields 3 clock)"
  have stored: "getPayment seedStore 3 = Some ?P"
    by (simp add: seedStore_eq getPayment_def Map_get_def)
  have pending: "pay_status ?P = ''pending''"
    and due: "getTime (pay_dueDate ?P) = getTime dueInstant"
    by (simp_all add: dueInstant_def seed_payment3_def insertPayment.defs payment.defs)
  have totals:
    "upcomingPaymentsTotal (projr (getDashboardData decimal englishMonth dueInstant clock seedStore 1)) = 0"
    "overduePaymentsTotal (projr (getDashboardData decimal englishMonth dueInstant clock seedStore 1)) = 0"
    by (simp_all add: getDashboardData_def query_defs Let_def seedStore_eq row_defs seed_defs
        view_defs sumAmounts_def upcomingPayments_def overduePayments_def dueInstant_def
        decimal_def)
  show ?thesis
    using wellFormed_seedStore stored pending due totals
      pending_due_now_in_neither_total [OF wellFormed_seedStore stored pending due,
        of decimal englishMonth clock 1]
    by auto
qed

end
